theory Spec2Isabelle
  imports Complex_Main
begin

section \<open>Python strings\<close>

text \<open>
  A Python \<open>str\<close> is a sequence of Unicode code points, so it is modelled as a list of
  natural numbers, one per code point. \<open>u\<close> embeds an ASCII literal; code points beyond
  ASCII are written as numbers (176 is the degree sign).
\<close>

type_synonym str = "nat list"

definition u :: "string \<Rightarrow> str" where
  "u s = map of_char s"

text \<open>
  The code points for which \<open>str.isspace\<close> holds; \<open>str.strip\<close>, \<open>str.rstrip\<close> and the
  regular-expression class \<open>\s\<close> (on \<open>str\<close> patterns) all use this set.
\<close>

definition is_space :: "nat \<Rightarrow> bool" where
  "is_space c \<longleftrightarrow>
     (9 \<le> c \<and> c \<le> 13) \<or> (28 \<le> c \<and> c \<le> 32) \<or> c = 133 \<or> c = 160 \<or> c = 5760 \<or>
     (8192 \<le> c \<and> c \<le> 8202) \<or> c = 8232 \<or> c = 8233 \<or> c = 8239 \<or> c = 8287 \<or> c = 12288"

definition lstrip :: "str \<Rightarrow> str" where
  "lstrip s = dropWhile is_space s"

definition rstrip :: "str \<Rightarrow> str" where
  "rstrip s = rev (dropWhile is_space (rev s))"

definition strip :: "str \<Rightarrow> str" where
  "strip s = rstrip (lstrip s)"

text \<open>\<open>sep.join(xs)\<close>.\<close>

fun join :: "str \<Rightarrow> str list \<Rightarrow> str" where
  "join sep [] = []"
| "join sep [x] = x"
| "join sep (x # y # ys) = x @ sep @ join sep (y # ys)"

text \<open>\<open>s.split(c)\<close> for a one-character separator: one more piece than separators.\<close>

fun split_on :: "nat \<Rightarrow> str \<Rightarrow> str list" where
  "split_on c [] = [[]]"
| "split_on c (x # xs) =
     (if x = c then [] # split_on c xs
      else (case split_on c xs of [] \<Rightarrow> [[x]] | y # ys \<Rightarrow> (x # y) # ys))"

text \<open>Decimal rendering of an \<open>int\<close>, as \<open>str(n)\<close> and \<open>f"{n}"\<close> give it.\<close>

function show_nat :: "nat \<Rightarrow> str" where
  "show_nat n = (if n < 10 then [48 + n] else show_nat (n div 10) @ [48 + n mod 10])"
  by pat_completeness auto
termination
  by (relation "measure (\<lambda>n. n)") auto

definition show_int :: "int \<Rightarrow> str" where
  "show_int i = (if i < 0 then 45 # show_nat (nat (- i)) else show_nat (nat i))"

section \<open>Weather utility module\<close>

subsection \<open>Exceptions\<close>

text \<open>
  Every exception carries the text \<open>str(e)\<close> gives. \<open>ClientError\<close> stands for
  \<open>aiohttp.ClientError\<close> and its subclasses; \<open>BaseException\<close> stands for the exceptions
  that do not derive from \<open>Exception\<close> (a cancellation, a keyboard interrupt); every other
  constructor is a subclass of \<open>Exception\<close>.
\<close>

datatype exn =
    ClientError str
  | KeyError str
  | IndexError str
  | TypeError str
  | AttributeError str
  | ValueError str
  | OtherException str
  | BaseException str

fun exn_str :: "exn \<Rightarrow> str" where
  "exn_str (ClientError m) = m"
| "exn_str (KeyError m) = m"
| "exn_str (IndexError m) = m"
| "exn_str (TypeError m) = m"
| "exn_str (AttributeError m) = m"
| "exn_str (ValueError m) = m"
| "exn_str (OtherException m) = m"
| "exn_str (BaseException m) = m"

fun is_client_error :: "exn \<Rightarrow> bool" where
  "is_client_error (ClientError m) = True"
| "is_client_error e = False"

fun is_exception :: "exn \<Rightarrow> bool" where
  "is_exception (BaseException m) = False"
| "is_exception e = True"

definition bind_e :: "exn + 'a \<Rightarrow> ('a \<Rightarrow> exn + 'b) \<Rightarrow> exn + 'b" where
  "bind_e r f = (case r of Inl e \<Rightarrow> Inl e | Inr x \<Rightarrow> f x)"

subsection \<open>Parsed JSON and the operations the module applies to it\<close>

text \<open>
  The value \<open>response.json()\<close> returns. A float is carried by its \<open>repr\<close> text, which
  determines it. An object is the list of its items; its keys are distinct.
\<close>

datatype json =
    JNull
  | JBool bool
  | JInt int
  | JFloat str
  | JStr str
  | JArr "json list"
  | JObj "(str \<times> json) list"

fun type_name :: "json \<Rightarrow> str" where
  "type_name JNull = u ''NoneType''"
| "type_name (JBool b) = u ''bool''"
| "type_name (JInt i) = u ''int''"
| "type_name (JFloat r) = u ''float''"
| "type_name (JStr s) = u ''str''"
| "type_name (JArr xs) = u ''list''"
| "type_name (JObj kvs) = u ''dict''"

definition not_subscriptable :: "json \<Rightarrow> exn" where
  "not_subscriptable v = TypeError ([39] @ type_name v @ [39] @ u '' object is not subscriptable'')"

definition no_attribute :: "json \<Rightarrow> str \<Rightarrow> exn" where
  "no_attribute v a =
     AttributeError ([39] @ type_name v @ [39] @ u '' object has no attribute '' @ [39] @ a @ [39])"

text \<open>
  \<open>v[k]\<close> for one of the literal keys of the module (\<open>repr k\<close> is then \<open>k\<close> in single
  quotes). The message texts are CPython's.
\<close>

fun getitem_key :: "json \<Rightarrow> str \<Rightarrow> exn + json" where
  "getitem_key (JObj kvs) k =
     (case map_of kvs k of None \<Rightarrow> Inl (KeyError ([39] @ k @ [39])) | Some v \<Rightarrow> Inr v)"
| "getitem_key (JArr xs) k = Inl (TypeError (u ''list indices must be integers or slices, not str''))"
| "getitem_key (JStr s) k = Inl (TypeError (u ''string indices must be integers, not '' @ [39] @ u ''str'' @ [39]))"
| "getitem_key v k = Inl (not_subscriptable v)"

text \<open>\<open>v[0]\<close>. The keys of a parsed JSON object are strings, so 0 is never among them.\<close>

fun getitem_0 :: "json \<Rightarrow> exn + json" where
  "getitem_0 (JArr []) = Inl (IndexError (u ''list index out of range''))"
| "getitem_0 (JArr (x # xs)) = Inr x"
| "getitem_0 (JStr []) = Inl (IndexError (u ''string index out of range''))"
| "getitem_0 (JStr (c # cs)) = Inr (JStr [c])"
| "getitem_0 (JObj kvs) = Inl (KeyError (u ''0''))"
| "getitem_0 v = Inl (not_subscriptable v)"

text \<open>\<open>v.get(k, default)\<close>.\<close>

fun dict_get :: "json \<Rightarrow> str \<Rightarrow> json \<Rightarrow> exn + json" where
  "dict_get (JObj kvs) k d = Inr (case map_of kvs k of None \<Rightarrow> d | Some v \<Rightarrow> v)"
| "dict_get v k d = Inl (no_attribute v (u ''get''))"

text \<open>
  Two functions of the Python library are parameters of the model: \<open>repr\<close> on a \<open>str\<close>
  (quoting and escaping depend on the Unicode tables) and \<open>str.capitalize\<close>.
\<close>

record pylib =
  repr_str :: "str \<Rightarrow> str"
  capitalize_str :: "str \<Rightarrow> str"

fun py_repr :: "pylib \<Rightarrow> json \<Rightarrow> str" where
  "py_repr lib JNull = u ''None''"
| "py_repr lib (JBool b) = (if b then u ''True'' else u ''False'')"
| "py_repr lib (JInt i) = show_int i"
| "py_repr lib (JFloat r) = r"
| "py_repr lib (JStr s) = repr_str lib s"
| "py_repr lib (JArr xs) = u ''['' @ join (u '', '') (map (py_repr lib) xs) @ u '']''"
| "py_repr lib (JObj kvs) =
     u ''{'' @ join (u '', '') (map (\<lambda>(k, v). repr_str lib k @ u '': '' @ py_repr lib v) kvs) @ u ''}''"

text \<open>A replacement field \<open>{v}\<close> of an f-string: a \<open>str\<close> as it is, anything else by \<open>repr\<close>.\<close>

fun py_format :: "pylib \<Rightarrow> json \<Rightarrow> str" where
  "py_format lib (JStr s) = s"
| "py_format lib v = py_repr lib v"

text \<open>\<open>v.capitalize()\<close>: only a \<open>str\<close> has the method.\<close>

fun capitalize :: "pylib \<Rightarrow> json \<Rightarrow> exn + str" where
  "capitalize lib (JStr s) = Inr (capitalize_str lib s)"
| "capitalize lib v = Inl (no_attribute v (u ''capitalize''))"

subsection \<open>The HTTP exchange\<close>

record request =
  url :: str
  params :: "(str \<times> str) list"

text \<open>A response: its status and what awaiting \<open>response.json()\<close> does.\<close>

record response =
  status :: int
  json_result :: "exn + json"

text \<open>
  The environment of one call: the value of \<open>os.getenv("OPENWEATHERMAP_API_KEY")\<close> and the
  transport, which answers a request with a response or raises.
\<close>

record env =
  api_key :: "str option"
  transport :: "request \<Rightarrow> exn + response"

definition base_url :: str where
  "base_url = u ''https://api.openweathermap.org/data/2.5/weather''"

definition weather_request :: "str \<Rightarrow> str \<Rightarrow> request" where
  "weather_request location key =
     \<lparr>url = base_url,
      params = [(u ''q'', location), (u ''appid'', key), (u ''units'', u ''metric'')]\<rparr>"

definition not_set_message :: str where
  "not_set_message =
     u ''Error: OPENWEATHERMAP_API_KEY not set in environment variables.\<newline>'' @
     u ''Please sign up at https://openweathermap.org/api and add your API key to .env file.''"

definition invalid_key_message :: str where
  "invalid_key_message = u ''Error: Invalid API key. Please check your OPENWEATHERMAP_API_KEY.''"

definition not_found_message :: "str \<Rightarrow> str" where
  "not_found_message location =
     u ''Error: City '' @ [39] @ location @ [39] @
     u '' not found. Try using format like '' @ [39] @ u ''Seattle'' @ [39] @ u '' or '' @
     [39] @ u ''London,UK'' @ [39] @ u ''.''"

definition other_status_message :: "str \<Rightarrow> int \<Rightarrow> str" where
  "other_status_message location st =
     u ''Error: Could not fetch weather for '' @ location @ u '' (Status: '' @ show_int st @ u '')''"

text \<open>The two handlers that close the \<open>try\<close> block of both functions.\<close>

definition try_except :: "exn + str \<Rightarrow> exn + str" where
  "try_except r =
     (case r of
        Inr s \<Rightarrow> Inr s
      | Inl e \<Rightarrow>
          if is_client_error e then Inr (u ''Error: Network error occurred: '' @ exn_str e)
          else if is_exception e then Inr (u ''Error: Unexpected error occurred: '' @ exn_str e)
          else Inl e)"

subsection \<open>\<open>get_real_weather\<close>\<close>

record basic_fields =
  weather_desc :: json
  temp :: json
  feels_like :: json
  humidity :: json
  wind_speed :: json

definition extract_basic :: "json \<Rightarrow> exn + basic_fields" where
  "extract_basic data =
     bind_e (bind_e (bind_e (getitem_key data (u ''weather'')) getitem_0)
               (\<lambda>w. getitem_key w (u ''description''))) (\<lambda>d.
     bind_e (bind_e (getitem_key data (u ''main'')) (\<lambda>m. getitem_key m (u ''temp''))) (\<lambda>t.
     bind_e (bind_e (getitem_key data (u ''main'')) (\<lambda>m. getitem_key m (u ''feels_like''))) (\<lambda>f.
     bind_e (bind_e (getitem_key data (u ''main'')) (\<lambda>m. getitem_key m (u ''humidity''))) (\<lambda>h.
     bind_e (bind_e (getitem_key data (u ''wind'')) (\<lambda>w. getitem_key w (u ''speed''))) (\<lambda>s.
     Inr \<lparr>weather_desc = d, temp = t, feels_like = f, humidity = h, wind_speed = s\<rparr>)))))"

definition basic_report :: "pylib \<Rightarrow> str \<Rightarrow> basic_fields \<Rightarrow> str" where
  "basic_report lib location b =
     u ''Weather in '' @ location @ u '':\<newline>'' @
     u ''- Conditions: '' @ py_format lib (weather_desc b) @ u ''\<newline>'' @
     u ''- Temperature: '' @ py_format lib (temp b) @ [176] @ u ''C (feels like '' @
       py_format lib (feels_like b) @ [176] @ u ''C)\<newline>'' @
     u ''- Humidity: '' @ py_format lib (humidity b) @ u ''%\<newline>'' @
     u ''- Wind Speed: '' @ py_format lib (wind_speed b) @ u '' m/s''"

text \<open>The body of the \<open>try\<close> block, given what \<open>session.get\<close> did.\<close>

definition basic_body :: "pylib \<Rightarrow> str \<Rightarrow> exn + response \<Rightarrow> exn + str" where
  "basic_body lib location got =
     bind_e got (\<lambda>resp.
       if status resp = 200 then
         bind_e (json_result resp) (\<lambda>data.
         bind_e (extract_basic data) (\<lambda>b. Inr (basic_report lib location b)))
       else if status resp = 401 then Inr invalid_key_message
       else if status resp = 404 then Inr (not_found_message location)
       else Inr (other_status_message location (status resp)))"

text \<open>
  The result is what the caller sees (\<open>Inl\<close>: an exception leaves the function) together
  with the requests sent, in order.
\<close>

definition get_real_weather :: "pylib \<Rightarrow> env \<Rightarrow> str \<Rightarrow> (exn + str) \<times> request list" where
  "get_real_weather lib ev location =
     (case api_key ev of
        None \<Rightarrow> (Inr not_set_message, [])
      | Some key \<Rightarrow>
          if key = [] then (Inr not_set_message, [])
          else (let req = weather_request location key
                in (try_except (basic_body lib location (transport ev req)), [req])))"

subsection \<open>\<open>get_real_weather_detailed\<close>\<close>

record detailed_fields =
  d_weather_desc :: json
  d_temp :: json
  d_feels_like :: json
  d_temp_min :: json
  d_temp_max :: json
  d_pressure :: json
  d_humidity :: json
  d_wind_speed :: json
  d_wind_deg :: json
  d_cloudiness :: json
  d_visibility :: json

definition main_field :: "json \<Rightarrow> string \<Rightarrow> exn + json" where
  "main_field data k = bind_e (getitem_key data (u ''main'')) (\<lambda>m. getitem_key m (u k))"

definition extract_detailed :: "json \<Rightarrow> exn + detailed_fields" where
  "extract_detailed data =
     bind_e (bind_e (bind_e (getitem_key data (u ''weather'')) getitem_0)
               (\<lambda>w. getitem_key w (u ''description''))) (\<lambda>d.
     bind_e (main_field data ''temp'') (\<lambda>t.
     bind_e (main_field data ''feels_like'') (\<lambda>f.
     bind_e (main_field data ''temp_min'') (\<lambda>tmin.
     bind_e (main_field data ''temp_max'') (\<lambda>tmax.
     bind_e (main_field data ''pressure'') (\<lambda>p.
     bind_e (main_field data ''humidity'') (\<lambda>h.
     bind_e (bind_e (getitem_key data (u ''wind'')) (\<lambda>w. getitem_key w (u ''speed''))) (\<lambda>s.
     bind_e (bind_e (getitem_key data (u ''wind'')) (\<lambda>w. dict_get w (u ''deg'') (JStr (u ''N/A'')))) (\<lambda>deg.
     bind_e (bind_e (getitem_key data (u ''clouds'')) (\<lambda>c. getitem_key c (u ''all''))) (\<lambda>cl.
     bind_e (dict_get data (u ''visibility'') (JStr (u ''N/A''))) (\<lambda>vis.
     Inr \<lparr>d_weather_desc = d, d_temp = t, d_feels_like = f, d_temp_min = tmin, d_temp_max = tmax,
          d_pressure = p, d_humidity = h, d_wind_speed = s, d_wind_deg = deg, d_cloudiness = cl,
          d_visibility = vis\<rparr>)))))))))))"

text \<open>Code point 9473 is the heavy horizontal line of the divider, 8226 the bullet.\<close>

definition detailed_report :: "pylib \<Rightarrow> str \<Rightarrow> detailed_fields \<Rightarrow> exn + str" where
  "detailed_report lib location b =
     bind_e (capitalize lib (d_weather_desc b)) (\<lambda>cap. Inr (
       u ''Detailed Weather Report for '' @ location @ u '':\<newline>'' @
       replicate 32 9473 @ u ''\<newline>'' @
       u ''Conditions: '' @ cap @ u ''\<newline>'' @
       u ''\<newline>'' @
       u ''Temperature:\<newline>'' @
       u ''  '' @ [8226] @ u '' Current: '' @ py_format lib (d_temp b) @ [176] @ u ''C (feels like '' @
         py_format lib (d_feels_like b) @ [176] @ u ''C)\<newline>'' @
       u ''  '' @ [8226] @ u '' Min/Max: '' @ py_format lib (d_temp_min b) @ [176] @ u ''C / '' @
         py_format lib (d_temp_max b) @ [176] @ u ''C\<newline>'' @
       u ''\<newline>'' @
       u ''Atmospheric Conditions:\<newline>'' @
       u ''  '' @ [8226] @ u '' Pressure: '' @ py_format lib (d_pressure b) @ u '' hPa\<newline>'' @
       u ''  '' @ [8226] @ u '' Humidity: '' @ py_format lib (d_humidity b) @ u ''%\<newline>'' @
       u ''  '' @ [8226] @ u '' Cloudiness: '' @ py_format lib (d_cloudiness b) @ u ''%\<newline>'' @
       u ''  '' @ [8226] @ u '' Visibility: '' @ py_format lib (d_visibility b) @ u '' meters\<newline>'' @
       u ''\<newline>'' @
       u ''Wind:\<newline>'' @
       u ''  '' @ [8226] @ u '' Speed: '' @ py_format lib (d_wind_speed b) @ u '' m/s\<newline>'' @
       u ''  '' @ [8226] @ u '' Direction: '' @ py_format lib (d_wind_deg b) @ [176]))"

definition detailed_body :: "pylib \<Rightarrow> str \<Rightarrow> exn + response \<Rightarrow> exn + str" where
  "detailed_body lib location got =
     bind_e got (\<lambda>resp.
       if status resp = 200 then
         bind_e (json_result resp) (\<lambda>data.
         bind_e (extract_detailed data) (\<lambda>b. detailed_report lib location b))
       else if status resp = 401 then Inr invalid_key_message
       else if status resp = 404 then Inr (not_found_message location)
       else Inr (other_status_message location (status resp)))"

definition get_real_weather_detailed :: "pylib \<Rightarrow> env \<Rightarrow> str \<Rightarrow> (exn + str) \<times> request list" where
  "get_real_weather_detailed lib ev location =
     (case api_key ev of
        None \<Rightarrow> (Inr not_set_message, [])
      | Some key \<Rightarrow>
          if key = [] then (Inr not_set_message, [])
          else (let req = weather_request location key
                in (try_except (detailed_body lib location (transport ev req)), [req])))"

section \<open>Markdown-to-document converter\<close>

subsection \<open>The document being built\<close>

text \<open>
  A run of a paragraph: plain text, or an inline code span (set in Courier New, 10pt, not
  bold).
\<close>

datatype run = Plain str | InlineCode str

text \<open>
  The block-level elements the converter appends: a heading with its level, a paragraph
  with its runs, a paragraph of style \<open>CodeBlock\<close> holding one run, and a table given by
  the texts of its cells, row by row (the first row is the header).
\<close>

datatype block =
    Heading nat str
  | Paragraph "run list"
  | CodeBlock str
  | Table "str list list"

text \<open>A document: the names of its styles and its body.\<close>

record document =
  styles :: "str list"
  body :: "block list"

text \<open>\<open>Document()\<close>: the styles of the library's template and an empty body.\<close>

definition new_document :: "str list \<Rightarrow> document" where
  "new_document template_styles = \<lparr>styles = template_styles, body = []\<rparr>"

definition ensure_mono_style :: "document \<Rightarrow> document" where
  "ensure_mono_style d =
     (let d1 = (if u ''CodeBlock'' \<notin> set (styles d)
                then d\<lparr>styles := styles d @ [u ''CodeBlock'']\<rparr> else d)
      in if u ''TableHeader'' \<notin> set (styles d1)
         then d1\<lparr>styles := styles d1 @ [u ''TableHeader'']\<rparr> else d1)"

text \<open>
  The text of a run, of a heading or of a table cell ends up as the text of an XML element,
  and the XML library refuses a text with a character outside the \<open>Char\<close> production of
  XML 1.0 (the control characters other than tab, line feed and carriage return, the
  surrogates, U+FFFE and U+FFFF): every call that sets a text raises \<open>ValueError\<close> then.
\<close>

definition xml_char :: "nat \<Rightarrow> bool" where
  "xml_char c \<longleftrightarrow>
     c = 9 \<or> c = 10 \<or> c = 13 \<or> (32 \<le> c \<and> c \<le> 55295) \<or> (57344 \<le> c \<and> c \<le> 65533) \<or>
     (65536 \<le> c \<and> c \<le> 1114111)"

definition xml_compatible :: "str \<Rightarrow> bool" where
  "xml_compatible s = list_all xml_char s"

definition xml_error :: exn where
  "xml_error =
     ValueError (u ''All strings must be XML compatible: Unicode or ASCII, '' @
                 u ''no NULL bytes or control characters'')"

fun run_text :: "run \<Rightarrow> str" where
  "run_text (Plain t) = t"
| "run_text (InlineCode t) = t"

text \<open>\<open>doc.add_paragraph()\<close> followed by one \<open>para.add_run\<close> for each run.\<close>

definition add_paragraph :: "document \<Rightarrow> run list \<Rightarrow> exn + document" where
  "add_paragraph d runs =
     (if list_all (\<lambda>r. xml_compatible (run_text r)) runs
      then Inr (d\<lparr>body := body d @ [Paragraph runs]\<rparr>)
      else Inl xml_error)"

text \<open>
  \<open>add_heading\<close>. The styles \<open>Heading 1\<close> to \<open>Heading 4\<close> belong to the library's template.
\<close>

definition add_heading :: "document \<Rightarrow> str \<Rightarrow> nat \<Rightarrow> exn + document" where
  "add_heading d text level =
     (if xml_compatible text
      then Inr (d\<lparr>body := body d @ [Heading (if level \<le> 4 then level else 4) text]\<rparr>)
      else Inl xml_error)"

text \<open>
  \<open>add_code_block\<close>: a paragraph of style \<open>CodeBlock\<close> (the library raises \<open>KeyError\<close> for
  a style the document lacks), then one run with the lines joined by line feeds; the
  language is unused.
\<close>

definition add_code_block :: "document \<Rightarrow> str list \<Rightarrow> str option \<Rightarrow> exn + document" where
  "add_code_block d code_lines language =
     (if u ''CodeBlock'' \<notin> set (styles d)
      then Inl (KeyError (u ''no style with name '' @ [39] @ u ''CodeBlock'' @ [39]))
      else if xml_compatible (join (u ''\<newline>'') code_lines)
      then Inr (d\<lparr>body := body d @ [CodeBlock (join (u ''\<newline>'') code_lines)]\<rparr>)
      else Inl xml_error)"

text \<open>
  The loop \<open>for i, col in enumerate(row): cells[i].text = col.strip()\<close> over the cells of
  a fresh row; \<open>cells[i]\<close> raises \<open>IndexError\<close> beyond the row's width, and setting the
  text raises \<open>ValueError\<close> for a text that is not XML compatible.
\<close>

fun assign_cells :: "str list \<Rightarrow> nat \<Rightarrow> str list \<Rightarrow> exn + str list" where
  "assign_cells cells i [] = Inr cells"
| "assign_cells cells i (col # cols) =
     (if i < length cells then
        (if xml_compatible (strip col) then assign_cells (cells[i := strip col]) (Suc i) cols
         else Inl xml_error)
      else Inl (IndexError (u ''tuple index out of range'')))"

text \<open>\<open>table.add_row().cells\<close> of a table with \<open>n\<close> columns: \<open>n\<close> empty cells.\<close>

definition add_row :: "nat \<Rightarrow> str list" where
  "add_row n = replicate n []"

fun add_body_rows :: "nat \<Rightarrow> str list list \<Rightarrow> exn + str list list" where
  "add_body_rows n [] = Inr []"
| "add_body_rows n (body_row # rest) =
     bind_e (assign_cells (add_row n) 0 body_row) (\<lambda>cells.
     bind_e (add_body_rows n rest) (\<lambda>more. Inr (cells # more)))"

text \<open>
  \<open>add_table\<close>. An exception leaves the function with the table half filled; the
  conversion ends there, so the model keeps the exception only.
\<close>

definition add_table :: "document \<Rightarrow> str list list \<Rightarrow> exn + document" where
  "add_table d rows =
     (case rows of
        [] \<Rightarrow> Inr d
      | first # rest \<Rightarrow>
          bind_e (assign_cells (add_row (length first)) 0 first) (\<lambda>hdr.
          bind_e (add_body_rows (length first) rest) (\<lambda>more.
          Inr (d\<lparr>body := body d @ [Table (hdr # more)]\<rparr>))))"

subsection \<open>The line patterns\<close>

text \<open>
  The lines come from \<open>iter_lines\<close> and hold no line feed, so in the patterns below \<open>.\<close>
  matches every character of a line and \<open>$\<close> matches at its end only. Code point 96 is the
  backtick, 35 the hash sign, 124 the vertical bar, 45 the hyphen, 58 the colon.
\<close>

text \<open>\<open>CODE_FENCE.match(line)\<close>: the text after the three backticks, when it matches.\<close>

definition fence_match :: "str \<Rightarrow> str option" where
  "fence_match line = (if take 3 line = [96, 96, 96] then Some (drop 3 line) else None)"

text \<open>\<open>HEADING.match(line)\<close>: the groups 1 and 2, when it matches.\<close>

definition heading_match :: "str \<Rightarrow> (str \<times> str) option" where
  "heading_match line =
     (let hashes = takeWhile (\<lambda>c. c = 35) line; rest = dropWhile (\<lambda>c. c = 35) line
      in if 1 \<le> length hashes \<and> length hashes \<le> 6 \<and> rest \<noteq> [] \<and> is_space (hd rest)
         then Some (hashes, dropWhile is_space rest) else None)"

text \<open>\<open>TABLE_ROW.match(line)\<close>.\<close>

definition table_row_match :: "str \<Rightarrow> bool" where
  "table_row_match line \<longleftrightarrow> 2 \<le> length line \<and> hd line = 124 \<and> last line = 124"

text \<open>\<open>[p.strip() for p in line.split("|")][1:-1]\<close>.\<close>

definition table_cells :: "str \<Rightarrow> str list" where
  "table_cells line = butlast (tl (map strip (split_on 124 line)))"

text \<open>The alignment pattern \<open>^:?-{3,}:?$\<close> on one cell.\<close>

definition alignment_cell :: "str \<Rightarrow> bool" where
  "alignment_cell p =
     (let q = (case p of [] \<Rightarrow> [] | c # cs \<Rightarrow> if c = 58 then cs else p);
          rest = dropWhile (\<lambda>c. c = 45) q
      in 3 \<le> length (takeWhile (\<lambda>c. c = 45) q) \<and> (rest = [] \<or> rest = [58]))"

text \<open>
  The runs of a paragraph line: \<open>INLINE_CODE.finditer\<close> from left to right, the text
  between two matches as a plain run, each match as a code run, the text after the last
  match as a plain run. The first argument is the plain text gathered since the last match.
\<close>

function inline_runs :: "str \<Rightarrow> str \<Rightarrow> run list" where
  "inline_runs acc [] = (if acc = [] then [] else [Plain acc])"
| "inline_runs acc (c # cs) =
     (if c = 96 \<and> takeWhile (\<lambda>x. x \<noteq> 96) cs \<noteq> [] \<and> dropWhile (\<lambda>x. x \<noteq> 96) cs \<noteq> []
      then (if acc = [] then [] else [Plain acc]) @
           InlineCode (takeWhile (\<lambda>x. x \<noteq> 96) cs) #
           inline_runs [] (tl (dropWhile (\<lambda>x. x \<noteq> 96) cs))
      else inline_runs (acc @ [c]) cs)"
  by pat_completeness auto
termination
  by (relation "measure (\<lambda>(acc, s). length s)")
     (auto simp: less_Suc_eq_le intro: le_trans [OF diff_le_self length_dropWhile_le])

subsection \<open>The conversion loop\<close>

record conv_state =
  doc :: document
  in_code :: bool
  code_lang :: "str option"
  code_buffer :: "str list"
  table_buffer :: "str list list"

definition flush_code :: "conv_state \<Rightarrow> exn + conv_state" where
  "flush_code s =
     (if code_buffer s \<noteq> []
      then bind_e (add_code_block (doc s) (code_buffer s) (code_lang s)) (\<lambda>d.
           Inr (s\<lparr>doc := d, code_buffer := [], code_lang := None\<rparr>))
      else Inr s)"

definition flush_table :: "conv_state \<Rightarrow> exn + conv_state" where
  "flush_table s =
     (if table_buffer s \<noteq> []
      then bind_e (add_table (doc s) (table_buffer s)) (\<lambda>d.
           Inr (s\<lparr>doc := d, table_buffer := []\<rparr>))
      else Inr s)"

text \<open>One pass of the loop body, for the line \<open>raw_line\<close>.\<close>

definition step :: "conv_state \<Rightarrow> str \<Rightarrow> exn + conv_state" where
  "step s raw_line =
     (let line = rstrip raw_line in
      case fence_match line of
        Some tag \<Rightarrow>
          if in_code s then bind_e (flush_code s) (\<lambda>s1. Inr (s1\<lparr>in_code := False\<rparr>))
          else Inr (s\<lparr>in_code := True,
                      code_lang := (if strip tag = [] then None else Some (strip tag))\<rparr>)
      | None \<Rightarrow>
          if in_code s then Inr (s\<lparr>code_buffer := code_buffer s @ [line]\<rparr>)
          else if strip line = [] then
            bind_e (flush_table s) (\<lambda>s1.
            bind_e (add_paragraph (doc s1) []) (\<lambda>d. Inr (s1\<lparr>doc := d\<rparr>)))
          else
            (case heading_match line of
               Some (hashes, text) \<Rightarrow>
                 bind_e (flush_table s) (\<lambda>s1.
                 bind_e (add_heading (doc s1) (strip text) (length hashes)) (\<lambda>d.
                 Inr (s1\<lparr>doc := d\<rparr>)))
             | None \<Rightarrow>
                 if table_row_match line then
                   (let parts = table_cells line in
                    if list_all alignment_cell parts then Inr s
                    else Inr (s\<lparr>table_buffer := table_buffer s @ [parts]\<rparr>))
                 else
                   bind_e (flush_table s) (\<lambda>s1.
                   bind_e (add_paragraph (doc s1) (inline_runs [] line)) (\<lambda>d.
                   Inr (s1\<lparr>doc := d\<rparr>)))))"

fun run_lines :: "conv_state \<Rightarrow> str list \<Rightarrow> exn + conv_state" where
  "run_lines s [] = Inr s"
| "run_lines s (raw_line # rest) = bind_e (step s raw_line) (\<lambda>s1. run_lines s1 rest)"

definition initial_state :: "str list \<Rightarrow> conv_state" where
  "initial_state template_styles =
     \<lparr>doc = ensure_mono_style (new_document template_styles), in_code = False,
      code_lang = None, code_buffer = [], table_buffer = []\<rparr>"

text \<open>The document handed to \<open>doc.save\<close>: the loop, then the two trailing flushes.\<close>

definition convert_lines :: "str list \<Rightarrow> str list \<Rightarrow> exn + document" where
  "convert_lines template_styles lines =
     bind_e (run_lines (initial_state template_styles) lines) (\<lambda>s.
     bind_e (flush_code s) (\<lambda>s1.
     bind_e (flush_table s1) (\<lambda>s2. Inr (doc s2))))"

subsection \<open>Files and the entry point\<close>

text \<open>
  Reading a text file with universal newlines turns \<open>\r\n\<close> and \<open>\r\<close> into a line feed;
  iterating over it yields the lines, each closed by its line feed except perhaps the last;
  \<open>iter_lines\<close> removes that line feed.
\<close>

fun universal_newlines :: "str \<Rightarrow> str" where
  "universal_newlines [] = []"
| "universal_newlines [c] = [if c = 13 then 10 else c]"
| "universal_newlines (c # d # cs) =
     (if c = 13 \<and> d = 10 then 10 # universal_newlines cs
      else if c = 13 then 10 # universal_newlines (d # cs)
      else c # universal_newlines (d # cs))"

definition iter_lines :: "str \<Rightarrow> str list" where
  "iter_lines text =
     (let pieces = split_on 10 (universal_newlines text)
      in if last pieces = [] then butlast pieces else pieces)"

text \<open>
  The two files: the decoded text of \<open>MD_FILE\<close> when it exists, and the document stored at
  \<open>DOCX_FILE\<close> when there is one.
\<close>

record files =
  md_file :: "str option"
  docx_file :: "document option"

text \<open>
  What the run depends on besides the files: the working directory, the path \<open>MD_FILE\<close> as
  text, the styles of the library's template and the size of the file written for a
  document.
\<close>

record site =
  cwd :: str
  md_path :: str
  template :: "str list"
  file_size :: "document \<Rightarrow> nat"

text \<open>How a run ends: it returns, raises \<open>SystemExit\<close> with a message, or raises.\<close>

datatype outcome = Returned | SystemExit str | Raised exn

text \<open>
  The exit status of the process: the interpreter prints the message of a \<open>SystemExit\<close>
  and exits with 1, as it does for an exception nobody caught.
\<close>

fun exit_status :: "outcome \<Rightarrow> nat" where
  "exit_status Returned = 0"
| "exit_status (SystemExit msg) = 1"
| "exit_status (Raised e) = 1"

record run_result =
  outcome :: outcome
  stdout :: "str list"
  files_after :: files

definition convert_md_to_docx :: "site \<Rightarrow> files \<Rightarrow> run_result" where
  "convert_md_to_docx st fs =
     (let out = [u ''[debug] Working directory: '' @ cwd st,
                 u ''[debug] Expected markdown path: '' @ md_path st]
      in case md_file fs of
           None \<Rightarrow>
             \<lparr>outcome = SystemExit (u ''Markdown file not found: '' @ md_path st),
              stdout = out @ [u ''[error] Markdown source missing''],
              files_after = fs\<rparr>
         | Some text \<Rightarrow>
             (case convert_lines (template st) (iter_lines text) of
                Inl e \<Rightarrow> \<lparr>outcome = Raised e, stdout = out, files_after = fs\<rparr>
              | Inr d \<Rightarrow>
                  \<lparr>outcome = Returned,
                   stdout = out @ [u ''Generated architecture_components.docx ('' @
                                   show_nat (file_size st d) @ u '' bytes)''],
                   files_after = fs\<lparr>docx_file := Some d\<rparr>\<rparr>))"

section \<open>Slide deck generator\<close>

subsection \<open>The deck being built\<close>

text \<open>Lengths are in English Metric Units, as the library keeps them.\<close>

definition Pt :: "int \<Rightarrow> int" where
  "Pt points = points * 12700"

text \<open>
  \<open>Inches(x)\<close> is \<open>int(x * 914400)\<close>. The arguments in this program are 10, 7.5, 0.5, 9,
  0.8, 1.5 and 5, for which the floating-point product is the exact integer.
\<close>

definition Inches :: "rat \<Rightarrow> int" where
  "Inches x = \<lfloor>x * 914400\<rfloor>"

datatype rgb = RGBColor nat nat nat

record font =
  font_size :: "int option"
  font_bold :: "bool option"
  font_color :: "rgb option"
  font_name :: "str option"

record para =
  p_text :: str
  p_level :: nat
  p_font :: font
  p_space_after :: "int option"

definition plain_font :: font where
  "plain_font = \<lparr>font_size = None, font_bold = None, font_color = None, font_name = None\<rparr>"

definition new_paragraph :: "str \<Rightarrow> para" where
  "new_paragraph t = \<lparr>p_text = t, p_level = 0, p_font = plain_font, p_space_after = None\<rparr>"

text \<open>
  Assigning \<open>.text\<close> of a shape or of a text frame: one paragraph for each piece between
  line feeds.
\<close>

definition set_text :: "str \<Rightarrow> para list" where
  "set_text t = map new_paragraph (split_on 10 t)"

text \<open>An update of \<open>paragraphs[0].font\<close>.\<close>

definition style_first :: "(font \<Rightarrow> font) \<Rightarrow> para list \<Rightarrow> para list" where
  "style_first f ps = (case ps of [] \<Rightarrow> [] | p # rest \<Rightarrow> p\<lparr>p_font := f (p_font p)\<rparr> # rest)"

text \<open>\<open>text_frame.clear()\<close> leaves one empty paragraph.\<close>

definition cleared :: "para list" where
  "cleared = [new_paragraph []]"

record text_box =
  tb_left :: int
  tb_top :: int
  tb_width :: int
  tb_height :: int
  tb_paragraphs :: "para list"
  tb_word_wrap :: "bool option"
  tb_fill :: "rgb option"

text \<open>
  The four variants of a slide: title and subtitle; layout index, title and body; title,
  left and right column; title box and code box.
\<close>

datatype slide =
    TitleSlide "para list" "para list"
  | ContentSlide nat "para list" "para list"
  | TwoColumnSlide "para list" "para list" "para list"
  | CodeSlide text_box text_box

record presentation =
  slide_width :: int
  slide_height :: int
  slides :: "slide list"

text \<open>\<open>Presentation()\<close>: the library's default template, 4:3 and without slides.\<close>

definition Presentation :: presentation where
  "Presentation = \<lparr>slide_width = 9144000, slide_height = 6858000, slides = []\<rparr>"

subsection \<open>The four slide constructors\<close>

text \<open>Each appends one slide to the deck; the model returns the deck.\<close>

definition create_title_slide :: "presentation \<Rightarrow> str \<Rightarrow> str \<Rightarrow> presentation" where
  "create_title_slide prs title subtitle =
     prs\<lparr>slides := slides prs @
       [TitleSlide
          (style_first (\<lambda>f. f\<lparr>font_size := Some (Pt 44), font_bold := Some True,
                               font_color := Some (RGBColor 0 51 102)\<rparr>) (set_text title))
          (set_text subtitle)]\<rparr>"

definition content_paragraph :: "str \<Rightarrow> para" where
  "content_paragraph item =
     \<lparr>p_text = item, p_level = 0, p_font = plain_font\<lparr>font_size := Some (Pt 18)\<rparr>,
      p_space_after = Some (Pt 12)\<rparr>"

text \<open>
  The model of \<open>create_content_slide\<close> is for a layout with a title and a body placeholder,
  as the layout of index 1 is, the default and the only one \<open>main\<close> uses.
\<close>

definition create_content_slide :: "presentation \<Rightarrow> str \<Rightarrow> str list \<Rightarrow> nat \<Rightarrow> presentation" where
  "create_content_slide prs title content_items layout_index =
     prs\<lparr>slides := slides prs @
       [ContentSlide layout_index
          (style_first (\<lambda>f. f\<lparr>font_size := Some (Pt 32), font_bold := Some True,
                               font_color := Some (RGBColor 0 51 102)\<rparr>) (set_text title))
          (cleared @ map content_paragraph content_items)]\<rparr>"

definition column_paragraph :: "str \<Rightarrow> para" where
  "column_paragraph item =
     \<lparr>p_text = item, p_level = 0, p_font = plain_font\<lparr>font_size := Some (Pt 16)\<rparr>,
      p_space_after = None\<rparr>"

definition create_two_column_slide :: "presentation \<Rightarrow> str \<Rightarrow> str list \<Rightarrow> str list \<Rightarrow> presentation" where
  "create_two_column_slide prs title left_items right_items =
     prs\<lparr>slides := slides prs @
       [TwoColumnSlide
          (style_first (\<lambda>f. f\<lparr>font_size := Some (Pt 32), font_bold := Some True\<rparr>)
             (set_text title))
          (cleared @ map column_paragraph left_items)
          (cleared @ map column_paragraph right_items)]\<rparr>"

definition create_code_slide :: "presentation \<Rightarrow> str \<Rightarrow> str \<Rightarrow> str \<Rightarrow> presentation" where
  "create_code_slide prs title code_text language =
     prs\<lparr>slides := slides prs @
       [CodeSlide
          \<lparr>tb_left = Inches (1 / 2), tb_top = Inches (1 / 2), tb_width = Inches 9,
           tb_height = Inches (4 / 5),
           tb_paragraphs =
             style_first (\<lambda>f. f\<lparr>font_size := Some (Pt 32), font_bold := Some True,
                                  font_color := Some (RGBColor 0 51 102)\<rparr>) (set_text title),
           tb_word_wrap = None, tb_fill = None\<rparr>
          \<lparr>tb_left = Inches (1 / 2), tb_top = Inches (3 / 2), tb_width = Inches 9,
           tb_height = Inches 5,
           tb_paragraphs =
             style_first (\<lambda>f. f\<lparr>font_name := Some (u ''Courier New''),
                                  font_size := Some (Pt 14)\<rparr>) (set_text code_text),
           tb_word_wrap = Some True, tb_fill = Some (RGBColor 240 240 240)\<rparr>]\<rparr>"

text \<open>The paragraphs of a slide's title, and the font of the first of them.\<close>

fun slide_title :: "slide \<Rightarrow> para list" where
  "slide_title (TitleSlide t s) = t"
| "slide_title (ContentSlide i t b) = t"
| "slide_title (TwoColumnSlide t l r) = t"
| "slide_title (CodeSlide tb cb) = tb_paragraphs tb"

definition title_font :: "slide \<Rightarrow> font" where
  "title_font s = p_font (hd (slide_title s))"

datatype slide_kind = Title | Content | TwoColumn | Code

fun kind :: "slide \<Rightarrow> slide_kind" where
  "kind (TitleSlide t s) = Title"
| "kind (ContentSlide i t b) = Content"
| "kind (TwoColumnSlide t l r) = TwoColumn"
| "kind (CodeSlide tb cb) = Code"

subsection \<open>\<open>main\<close>\<close>

text \<open>The 23 constructor calls of \<open>main\<close>, in order, with their literal arguments.\<close>

definition slide_01 :: "presentation \<Rightarrow> presentation" where
  "slide_01 prs =
     create_title_slide prs
       (u ''Microsoft Agent Framework'')
       (u ''Building, Orchestrating, and Deploying AI Agents\<newline>'' @
        u ''Private Preview Overview'')"

definition slide_02 :: "presentation \<Rightarrow> presentation" where
  "slide_02 prs =
     create_content_slide prs
       (u ''What is Microsoft Agent Framework?'')
       [[129302] @ u '' Comprehensive multi-language framework for AI agents'',
        [128260] @ u '' Support for both .NET and Python implementations'',
        [127919] @ u '' Everything from simple chat agents to complex workflows'',
        [127760] @ u '' Graph-based orchestration for multi-agent systems'',
        [128268] @ u '' Extensible plugin ecosystem'',
        [9729, 65039] @ u '' Enterprise-ready with Azure integration''] 1"

definition slide_03 :: "presentation \<Rightarrow> presentation" where
  "slide_03 prs =
     create_content_slide prs
       (u ''Current Status - Private Preview'')
       [[128230] @ u '' Status: Active Private Preview'',
        [128260] @ u '' Packages: Nightly builds available via GitHub Packages'',
        [128640] @ u '' Ready for: Testing, feedback, and early adoption'',
        [128221] @ u '' Not yet: Public PyPI or NuGet releases'',
        [128172] @ u '' Feedback: GitHub issues and surveys welcomed'',
        [9889] @ u '' Updates: Active development, sync regularly''] 1"

definition slide_04 :: "presentation \<Rightarrow> presentation" where
  "slide_04 prs =
     create_content_slide prs
       (u ''Key Features & Capabilities'')
       [[127917] @
        u '' Multi-Agent Orchestration: Group chat, sequential, concurrent '' @
        u ''patterns'',
        [128202] @
        u '' Graph-based Workflows: Data flows with streaming & checkpointing'',
        [128295] @ u '' Plugin Ecosystem: Native functions, OpenAPI, Model Context '' @
        u ''Protocol'',
        [129504] @ u '' LLM Support: OpenAI, Azure OpenAI, Azure AI Foundry'',
        [9881, 65039] @
        u '' Runtime Support: In-process and distributed agent execution'',
        [127912] @ u '' Multimodal: Text, vision, and function calling'',
        [128260] @ u '' Human-in-the-Loop: Interactive approvals and interventions''] 1"

definition slide_05 :: "presentation \<Rightarrow> presentation" where
  "slide_05 prs =
     create_content_slide prs
       (u ''Architecture Components'')
       [u ''1. Chat Agents - Conversational AI agents with instructions, '' @
        u ''tools, and state management for focused tasks'',
        u ''2. Agent Executors - Wrapper layer that integrates agents into '' @
        u ''workflows, enabling coordination between multiple agents'',
        u ''3. Workflow Builder - Fluent API for creating graph-based orchestrations '' @
        u ''with edges, streaming, and checkpointing'',
        u ''4. Chat Clients - Provider-agnostic abstractions supporting '' @
        u ''OpenAI, Azure OpenAI, and Azure AI Foundry'',
        u ''5. Tools & Plugins - Type-safe function definitions with automatic '' @
        u ''schema generation for LLM invocation'',
        u ''6. Runtime - Flexible execution supporting both in-process agents '' @
        u ''and distributed multi-agent systems''] 1"

definition slide_06 :: "presentation \<Rightarrow> presentation" where
  "slide_06 prs =
     create_two_column_slide prs
       (u ''Cross-Platform Support'')
       [[128013] @ u '' Python'',
        [8226] @ u '' Version: 3.10+'',
        [8226] @ u '' Platforms: Windows, macOS, Linux'',
        [8226] @ u '' Package: agent-framework'',
        [8226] @ u '' Extensions: azure-ai, microsoft'',
        [8226] @ u '' Dev Tools: uv, pip, venv'']
       [u ''.NET'',
        [8226] @ u '' Versions: .NET 9.0, 8.0, Framework 4.7.2'',
        [8226] @ u '' Platforms: Windows, macOS, Linux'',
        [8226] @ u '' Package: Microsoft.Agents.AI'',
        [8226] @ u '' Extensions: Azure, Abstractions'',
        [8226] @ u '' Dev Tools: dotnet CLI, NuGet'']"

definition slide_07 :: "presentation \<Rightarrow> presentation" where
  "slide_07 prs =
     create_content_slide prs
       (u ''Types of Agents'')
       [[128172] @ u '' ChatAgent - Simple conversational agents with tools'',
        [128260] @ u '' AgentExecutor - Agents wrapped for workflows'',
        [127919] @ u '' Custom Executors - Python/C# code executors in workflows'',
        [127760] @ u '' Azure AI Agents - Managed agents with Azure AI Foundry'',
        [129302] @ u '' Azure OpenAI Assistants - Stateful assistants'',
        [128225] @ u '' Copilot Studio Agents - Microsoft 365 integration''] 1"

definition slide_08 :: "presentation \<Rightarrow> presentation" where
  "slide_08 prs =
     create_content_slide prs
       (u ''Multi-Agent Orchestration Patterns'')
       [[128279] @ u '' Sequential - Agents execute in order'',
        [9889] @ u '' Concurrent (Fan-out/Fan-in) - Parallel execution'',
        [127919] @ u '' Handoff - Transfer control between agents'',
        [128172] @ u '' Group Chat - Multi-agent conversations'',
        [127795] @ u '' Hierarchical - Leader-worker patterns'',
        [128260] @ u '' Conditional Routing - Dynamic agent selection''] 1"

definition slide_09 :: "presentation \<Rightarrow> presentation" where
  "slide_09 prs =
     create_content_slide prs
       (u ''Graph-Based Workflows'')
       [[128202] @ u '' Visual Workflow Builder - Fluent API for graph construction'',
        [127916] @ u '' Streaming Support - Real-time event streaming'',
        [128190] @ u '' Checkpointing - Save and restore workflow state'',
        [9198, 65039] @ u '' Time-Travel Debugging - Replay workflow execution'',
        [129309] @ u '' Human-in-the-Loop - Interactive approvals'',
        [128200] @ u '' Visualization - Mermaid and GraphViz diagrams''] 1"

definition slide_10 :: "presentation \<Rightarrow> presentation" where
  "slide_10 prs =
     create_code_slide prs
       (u ''Python Example - Simple Agent'')
       (u ''# Create a weather agent with tools\<newline>'' @
        u ''from agent_framework import ChatAgent\<newline>'' @
        u ''from agent_framework.azure import AzureOpenAIChatClient\<newline>'' @
        u ''\<newline>'' @ u ''def get_weather(location: str) -> str:\<newline>'' @
        u ''    '' @ [34, 34, 34] @ u ''Get weather for a location.'' @ [34, 34, 34] @
        u ''\<newline>'' @ u ''    return f'' @ [34] @ u ''Weather in '' @ [123] @
        u ''location'' @ [125] @ u '': Sunny, 72'' @ [176] @ u ''F'' @ [34] @
        u ''\<newline>'' @ u ''\<newline>'' @ u ''agent = ChatAgent(\<newline>'' @
        u ''    name='' @ [34] @ u ''WeatherAssistant'' @ [34] @ u '',\<newline>'' @
        u ''    instructions='' @ [34] @ u ''Help users with weather info'' @ [34] @
        u '',\<newline>'' @ u ''    chat_client=AzureOpenAIChatClient(),\<newline>'' @
        u ''    tools=[get_weather]\<newline>'' @ u '')\<newline>'' @
        u ''\<newline>'' @ u ''response = await agent.run('' @ [34] @ u ''What'' @
        [39] @ u ''s the weather in Seattle?'' @ [34] @ u '')\<newline>'' @
        u ''print(response.text)'')
       (u ''python'')"

definition slide_11 :: "presentation \<Rightarrow> presentation" where
  "slide_11 prs =
     create_code_slide prs
       (u ''.NET Example - Simple Agent'')
       (u ''// Create a weather agent with tools\<newline>'' @
        u ''using Microsoft.Agents.AI;\<newline>'' @
        u ''using Microsoft.Agents.AI.Azure;\<newline>'' @ u ''\<newline>'' @
        u ''string GetWeather(string location) =>\<newline>'' @ u ''    '' @ [36, 34] @
        u ''Weather in '' @ [123] @ u ''location'' @ [125] @ u '': Sunny, 72'' @
        [176] @ u ''F'' @ [34] @ u '';\<newline>'' @ u ''\<newline>'' @
        u ''var agent = new AzureOpenAIClient(\<newline>'' @
        u ''        new Uri(Environment.GetEnvironmentVariable('' @ [34] @
        u ''AZURE_OPENAI_ENDPOINT'' @ [34] @ u '')!),\<newline>'' @
        u ''        new AzureCliCredential())\<newline>'' @ u ''    .GetChatClient('' @
        [34] @ u ''gpt-4o'' @ [34] @ u '')\<newline>'' @
        u ''    .CreateAIAgent(\<newline>'' @ u ''        instructions: '' @ [34] @
        u ''Help users with weather information'' @ [34] @ u '',\<newline>'' @
        u ''        tools: [AIFunctionFactory.Create(GetWeather)]);\<newline>'' @
        u ''\<newline>'' @ u ''var response = await agent.RunAsync('' @ [34] @
        u ''What'' @ [39] @ u ''s the weather in Seattle?'' @ [34] @
        u '');\<newline>'' @ u ''Console.WriteLine(response.Text);'')
       (u ''python'')"

definition slide_12 :: "presentation \<Rightarrow> presentation" where
  "slide_12 prs =
     create_code_slide prs
       (u ''Workflow Example - Sequential Agents'')
       (u ''# Create a multi-agent workflow\<newline>'' @
        u ''from agent_framework import WorkflowBuilder, AgentExecutor\<newline>'' @
        u ''\<newline>'' @ u ''# Create agents\<newline>'' @
        u ''researcher = AgentExecutor(chat_client.create_agent(\<newline>'' @
        u ''    instructions='' @ [34] @ u ''Research facts'' @ [34] @
        u ''))\<newline>'' @
        u ''writer = AgentExecutor(chat_client.create_agent(\<newline>'' @
        u ''    instructions='' @ [34] @ u ''Write content'' @ [34] @
        u ''))\<newline>'' @ u ''\<newline>'' @ u ''# Build workflow\<newline>'' @
        u ''workflow = (WorkflowBuilder()\<newline>'' @
        u ''    .set_start_executor(researcher)\<newline>'' @
        u ''    .add_edge(researcher, writer)\<newline>'' @
        u ''    .build())\<newline>'' @ u ''\<newline>'' @
        u ''# Run workflow\<newline>'' @
        u ''async for event in workflow.run_stream('' @ [34] @ u ''Write about AI'' @
        [34] @ u ''):\<newline>'' @ u ''    print(event)'')
       (u ''python'')"

definition slide_13 :: "presentation \<Rightarrow> presentation" where
  "slide_13 prs =
     create_content_slide prs
       (u ''Plugin & Tool Ecosystem'')
       [[9889] @ u '' Native Functions - Python/C# functions with annotations'',
        [127760] @ u '' OpenAPI - REST API integrations (planned)'',
        [128268] @ u '' Model Context Protocol (MCP) - Tool interoperability'',
        [127919] @ u '' Azure AI Search - Knowledge base integration (planned)'',
        [128269] @ u '' Bing Grounding - Web search capabilities (planned)'',
        [128295] @ u '' Custom Tools - Build your own extensions''] 1"

definition slide_14 :: "presentation \<Rightarrow> presentation" where
  "slide_14 prs =
     create_content_slide prs
       (u ''Azure Integration'')
       [[127919] @ u '' Azure AI Foundry - Managed agent infrastructure'',
        [129504] @ u '' Azure OpenAI - GPT models and assistants'',
        [128272] @ u '' Azure Identity - AAD authentication'',
        [128190] @ u '' Azure Cosmos DB - Workflow state storage'',
        [128202] @ u '' Azure Monitor - Telemetry and logging'',
        [128269] @ u '' Application Insights - Performance tracking''] 1"

definition slide_15 :: "presentation \<Rightarrow> presentation" where
  "slide_15 prs =
     create_content_slide prs
       (u ''Getting Started - Installation'')
       [u ''Python:'',
        u ''  pip install agent-framework'',
        u ''  pip install agent-framework[azure-ai,microsoft,all]'',
        [],
        u ''.NET:'',
        u ''  dotnet add package Microsoft.Agents.AI --version 0.0.1-nightly-*'',
        [],
        u ''Or run samples directly from the cloned repository!''] 1"

definition slide_16 :: "presentation \<Rightarrow> presentation" where
  "slide_16 prs =
     create_content_slide prs
       (u ''Configuration - Environment Variables'')
       [u ''OpenAI:'',
        u ''  OPENAI_API_KEY, OPENAI_CHAT_MODEL_ID'',
        [],
        u ''Azure OpenAI:'',
        u ''  AZURE_OPENAI_API_KEY, AZURE_OPENAI_ENDPOINT'',
        u ''  AZURE_OPENAI_CHAT_DEPLOYMENT_NAME'',
        [],
        u ''Azure AI Foundry:'',
        u ''  AZURE_AI_PROJECT_ENDPOINT, AZURE_AI_MODEL_DEPLOYMENT_NAME''] 1"

definition slide_17 :: "presentation \<Rightarrow> presentation" where
  "slide_17 prs =
     create_two_column_slide prs
       (u ''Sample Projects & Examples'')
       [u ''Python Samples:'',
        [8226] @ u '' Basic agents with tools'',
        [8226] @ u '' Azure integration'',
        [8226] @ u '' Workflow orchestration'',
        [8226] @ u '' Multi-agent patterns'',
        [8226] @ u '' Real weather API demo'',
        [8226] @ u '' Notebook tutorials'']
       [u ''.NET Samples:'',
        [8226] @ u '' Minimal console agent'',
        [8226] @ u '' Agent providers'',
        [8226] @ u '' Orchestration patterns'',
        [8226] @ u '' Semantic Kernel migration'',
        [8226] @ u '' A2A client/server'',
        [8226] @ u '' Web chat UI'']"

definition slide_18 :: "presentation \<Rightarrow> presentation" where
  "slide_18 prs =
     create_content_slide prs
       (u ''Development Tools'')
       [[128421, 65039] @ u '' DevUI - Web-based agent testing interface'',
        [128027] @ u '' Debugging - Step through agent execution'',
        [128202] @ u '' Visualization - WorkflowViz for graph diagrams'',
        [128221] @ u '' Logging - OpenTelemetry instrumentation'',
        [128269] @ u '' Tracing - Track agent interactions'',
        [9198, 65039] @ u '' Time-Travel - Replay and debug workflows''] 1"

definition slide_19 :: "presentation \<Rightarrow> presentation" where
  "slide_19 prs =
     create_content_slide prs
       (u ''Best Practices'')
       [[128272] @ u '' Security - Use Azure Identity, avoid hardcoded keys'',
        [128221] @ u '' Instructions - Clear, specific agent instructions'',
        [128736, 65039] @ u '' Tools - Type hints and descriptions for all parameters'',
        [128260] @ u '' Error Handling - Graceful failures and retries'',
        [128202] @ u '' Monitoring - Implement telemetry and logging'',
        [129514] @ u '' Testing - Unit test agents and workflows'',
        [128218] @ u '' Documentation - Document agent capabilities''] 1"

definition slide_20 :: "presentation \<Rightarrow> presentation" where
  "slide_20 prs =
     create_content_slide prs
       (u ''Resources & Documentation'')
       [[128218] @ u '' Repository: github.com/microsoft/agent-framework'',
        [128214] @ u '' Python Docs: user-documentation-python/'',
        [128214] @ u '' .NET Docs: user-documentation-dotnet/'',
        [127959, 65039] @ u '' Architecture Decisions: docs/decisions/'',
        [127912] @ u '' Design Docs: docs/design/'',
        [128027] @ u '' Issues: GitHub Issues'',
        [128172] @ u '' Feedback: Microsoft Forms survey''] 1"

definition slide_21 :: "presentation \<Rightarrow> presentation" where
  "slide_21 prs =
     create_content_slide prs
       (u ''Current Focus & Evolution'')
       [[128640] @ u '' Active Development Areas:'',
        [8226] @ u '' Completing core agent patterns'',
        [8226] @ u '' Enhanced workflow capabilities'',
        [8226] @ u '' Additional Azure service integrations'',
        [8226] @ u '' OpenAPI and MCP tool support'',
        [8226] @ u '' Performance optimizations'',
        [8226] @ u '' Documentation and samples'',
        [],
        [128230] @ u '' Moving toward public preview and GA releases''] 1"

definition slide_22 :: "presentation \<Rightarrow> presentation" where
  "slide_22 prs =
     create_content_slide prs
       (u ''Get Involved!'')
       [[128295] @ u '' Try the Framework:'',
        u ''  Clone the repo and run samples'',
        [],
        [128172] @ u '' Provide Feedback:'',
        u ''  File issues, complete surveys'',
        [],
        [129309] @ u '' Contribute:'',
        u ''  Review contribution guidelines'',
        [],
        [128226] @ u '' Stay Updated:'',
        u ''  Sync your repo regularly for latest features''] 1"

definition slide_23 :: "presentation \<Rightarrow> presentation" where
  "slide_23 prs =
     create_title_slide prs
       (u ''Questions?'')
       (u ''Microsoft Agent Framework\<newline>'' @ u ''\<newline>'' @ u ''Thank you!'')"

text \<open>The deck after the first three statements of \<open>main\<close>.\<close>

definition main_canvas :: presentation where
  "main_canvas = Presentation\<lparr>slide_width := Inches 10, slide_height := Inches (15 / 2)\<rparr>"

definition main_calls :: "(presentation \<Rightarrow> presentation) list" where
  "main_calls =
     [slide_01, slide_02, slide_03, slide_04, slide_05, slide_06, slide_07, slide_08,
      slide_09, slide_10, slide_11, slide_12, slide_13, slide_14, slide_15, slide_16,
      slide_17, slide_18, slide_19, slide_20, slide_21, slide_22, slide_23]"

text \<open>The deck handed to \<open>prs.save\<close>.\<close>

definition main_deck :: presentation where
  "main_deck = foldl (\<lambda>prs call. call prs) main_canvas main_calls"

record main_result =
  output_file :: str
  saved :: presentation
  printed :: "str list"

definition main :: main_result where
  "main =
     \<lparr>output_file = u ''agent_framework_overview.pptx'',
      saved = main_deck,
      printed =
        [[9989] @ u '' Presentation created: '' @ u ''agent_framework_overview.pptx'',
         [128202] @ u '' Total slides: '' @ show_nat (length (slides main_deck)),
         u ''\<newline>'' @ [127919] @ u '' Next steps:'',
         u ''   1. Open the file in PowerPoint or compatible software'',
         u ''   2. Customize colors, fonts, and layouts as needed'',
         u ''   3. Add company branding if required'',
         u ''   4. Review and practice before presenting'']\<rparr>"

section \<open>Notions used in the statements\<close>

text \<open>The number of lines of a text: one more than its line feeds.\<close>

definition line_count :: "str \<Rightarrow> nat" where
  "line_count s = length (split_on 10 s)"

text \<open>The error indicator every error text of the weather module starts with.\<close>

definition has_error_indicator :: "str \<Rightarrow> bool" where
  "has_error_indicator s \<longleftrightarrow> take 7 s = u ''Error: ''"

text \<open>
  A faulty exchange: the HTTP call raises an exception (a transport error or any other),
  or it answers with status 200 and then reading the body as JSON raises an exception, or
  the body read does not go through the processing \<open>fails\<close> stands for.
\<close>

definition upstream_fault :: "(json \<Rightarrow> bool) \<Rightarrow> exn + response \<Rightarrow> bool" where
  "upstream_fault fails got =
     (case got of
        Inl e \<Rightarrow> is_exception e
      | Inr resp \<Rightarrow>
          status resp = 200 \<and>
          (case json_result resp of Inl e \<Rightarrow> is_exception e | Inr data \<Rightarrow> fails data))"

text \<open>An exception that the handlers of the module catch, if any.\<close>

definition raises_only_exceptions :: "exn + 'a \<Rightarrow> bool" where
  "raises_only_exceptions r = (case r of Inl e \<Rightarrow> is_exception e | Inr x \<Rightarrow> True)"

text \<open>Sample inputs: a well-formed body, a library and an environment with a key.\<close>

definition sample_body :: json where
  "sample_body =
     JObj [(u ''weather'', JArr [JObj [(u ''description'', JStr (u ''clear sky''))]]),
           (u ''main'', JObj [(u ''temp'', JFloat (u ''15.5'')),
                              (u ''feels_like'', JFloat (u ''14.2'')),
                              (u ''humidity'', JInt 65)]),
           (u ''wind'', JObj [(u ''speed'', JFloat (u ''3.6''))])]"

definition sample_lib :: pylib where
  "sample_lib = \<lparr>repr_str = (\<lambda>s. [39] @ s @ [39]), capitalize_str = (\<lambda>s. s)\<rparr>"

definition sample_env :: "int \<Rightarrow> exn + json \<Rightarrow> env" where
  "sample_env st read =
     \<lparr>api_key = Some (u ''k''),
      transport = (\<lambda>r. Inr \<lparr>status = st, json_result = read\<rparr>)\<rparr>"

definition sample_report :: str where
  "sample_report =
     u ''Weather in Seattle:\<newline>- Conditions: clear sky\<newline>- Temperature: 15.5'' @ [176] @
     u ''C (feels like 14.2'' @ [176] @ u ''C)\<newline>- Humidity: 65%\<newline>- Wind Speed: 3.6 m/s''"


section \<open>Properties of the weather utility module\<close>

text \<open>
  C3. Whatever the location, when the API key is absent from the environment or empty, both
  weather functions return the fixed "not set" message and send no HTTP request.
\<close>

theorem missing_key_short_circuits:
  assumes "api_key ev = None \<or> api_key ev = Some []"
  shows "get_real_weather lib ev location = (Inr not_set_message, []) \<and>
         get_real_weather_detailed lib ev location = (Inr not_set_message, [])"
  using assms by (auto simp: get_real_weather_def get_real_weather_detailed_def)

theorem missing_key_short_circuits_witness:
  "(api_key ((sample_env 200 (Inr sample_body))\<lparr>api_key := None\<rparr>) = None \<or>
    api_key ((sample_env 200 (Inr sample_body))\<lparr>api_key := None\<rparr>) = Some []) \<and>
   get_real_weather sample_lib ((sample_env 200 (Inr sample_body))\<lparr>api_key := None\<rparr>)
     (u ''Seattle'') = (Inr not_set_message, []) \<and>
   get_real_weather_detailed sample_lib ((sample_env 200 (Inr sample_body))\<lparr>api_key := Some []\<rparr>)
     (u ''Seattle'') = (Inr not_set_message, [])"
  using
    missing_key_short_circuits
      [of "(sample_env 200 (Inr sample_body))\<lparr>api_key := None\<rparr>" sample_lib "u ''Seattle''"]
    missing_key_short_circuits
      [of "(sample_env 200 (Inr sample_body))\<lparr>api_key := Some []\<rparr>" sample_lib "u ''Seattle''"]
  by simp

lemma bind_e_Inl: "bind_e (Inl e) f = Inl e"
  by (simp add: bind_e_def)

lemma bind_e_Inr: "bind_e (Inr x) f = f x"
  by (simp add: bind_e_def)

text \<open>What the subscripting and method calls of the module raise derives from \<open>Exception\<close>.\<close>

lemma roe_bind:
  "raises_only_exceptions r \<Longrightarrow> (\<And>x. raises_only_exceptions (f x)) \<Longrightarrow>
   raises_only_exceptions (bind_e r f)"
  by (cases r) (simp_all add: raises_only_exceptions_def bind_e_def)

lemma roe_Inr: "raises_only_exceptions (Inr x)"
  by (simp add: raises_only_exceptions_def)

lemma roe_getitem_key: "raises_only_exceptions (getitem_key v k)"
  by (cases v) (simp_all add: raises_only_exceptions_def not_subscriptable_def split: option.splits)

lemma roe_getitem_0: "raises_only_exceptions (getitem_0 v)"
  by (cases v rule: getitem_0.cases) (simp_all add: raises_only_exceptions_def not_subscriptable_def)

lemma roe_dict_get: "raises_only_exceptions (dict_get v k d)"
  by (cases v) (simp_all add: raises_only_exceptions_def no_attribute_def)

lemma roe_capitalize: "raises_only_exceptions (capitalize lib v)"
  by (cases v) (simp_all add: raises_only_exceptions_def no_attribute_def)

lemmas roe_intros = roe_bind roe_Inr roe_getitem_key roe_getitem_0 roe_dict_get roe_capitalize

lemma roe_extract_basic: "raises_only_exceptions (extract_basic data)"
  unfolding extract_basic_def by (intro roe_intros)

lemma roe_extract_detailed: "raises_only_exceptions (extract_detailed data)"
  unfolding extract_detailed_def main_field_def by (intro roe_intros)

lemma roe_detailed_report: "raises_only_exceptions (detailed_report lib location b)"
  unfolding detailed_report_def by (intro roe_intros)

lemma try_except_error:
  "is_exception e \<Longrightarrow> \<exists>s. try_except (Inl e) = Inr s \<and> has_error_indicator s"
  by (simp add: try_except_def has_error_indicator_def u_def)

lemma fault_basic:
  assumes "upstream_fault (\<lambda>d. isl (extract_basic d)) got"
  shows "\<exists>e. basic_body lib location got = Inl e \<and> is_exception e"
proof (cases got)
  case (Inl e)
  with assms show ?thesis by (simp add: upstream_fault_def basic_body_def bind_e_def)
next
  case (Inr resp)
  with assms have st: "status resp = 200" by (simp add: upstream_fault_def)
  show ?thesis
  proof (cases "json_result resp")
    case (Inl e)
    with assms Inr st show ?thesis by (simp add: upstream_fault_def basic_body_def bind_e_def)
  next
    case data: (Inr data)
    with assms Inr have "isl (extract_basic data)" by (simp add: upstream_fault_def)
    then obtain e where e: "extract_basic data = Inl e" by (cases "extract_basic data") auto
    with roe_extract_basic [of data] have "is_exception e" by (simp add: raises_only_exceptions_def)
    with Inr st data e show ?thesis by (simp add: basic_body_def bind_e_def)
  qed
qed

lemma fault_detailed:
  assumes "upstream_fault (\<lambda>d. isl (bind_e (extract_detailed d) (detailed_report lib location))) got"
  shows "\<exists>e. detailed_body lib location got = Inl e \<and> is_exception e"
proof (cases got)
  case (Inl e)
  with assms show ?thesis by (simp add: upstream_fault_def detailed_body_def bind_e_def)
next
  case (Inr resp)
  with assms have st: "status resp = 200" by (simp add: upstream_fault_def)
  show ?thesis
  proof (cases "json_result resp")
    case (Inl e)
    with assms Inr st show ?thesis by (simp add: upstream_fault_def detailed_body_def bind_e_def)
  next
    case data: (Inr data)
    let ?r = "bind_e (extract_detailed data) (detailed_report lib location)"
    from data assms Inr have "isl ?r" by (simp add: upstream_fault_def)
    then obtain e where e: "?r = Inl e" by (cases ?r) auto
    have "raises_only_exceptions ?r"
      by (intro roe_bind roe_extract_detailed roe_detailed_report)
    with e have "is_exception e" by (simp add: raises_only_exceptions_def)
    with Inr st data e show ?thesis by (simp add: detailed_body_def bind_e_Inr)
  qed
qed

text \<open>
  C1. In every execution in which the HTTP call raises an exception (a transport error or
  any other exception), or the response has status 200 and its body cannot be read as JSON
  or lacks a field the function reads, \<open>get_real_weather\<close> and \<open>get_real_weather_detailed\<close>
  return a string, not an exception, and the string starts with the indicator \<open>Error: \<close>.
\<close>

theorem weather_never_raises:
  assumes "api_key ev = Some key" and "key \<noteq> []"
  shows "(upstream_fault (\<lambda>d. isl (extract_basic d)) (transport ev (weather_request location key)) \<longrightarrow>
            (\<exists>s. get_real_weather lib ev location = (Inr s, [weather_request location key]) \<and>
                 has_error_indicator s)) \<and>
         (upstream_fault (\<lambda>d. isl (bind_e (extract_detailed d) (detailed_report lib location)))
              (transport ev (weather_request location key)) \<longrightarrow>
            (\<exists>s. get_real_weather_detailed lib ev location = (Inr s, [weather_request location key]) \<and>
                 has_error_indicator s))"
proof (intro conjI impI)
  assume "upstream_fault (\<lambda>d. isl (extract_basic d)) (transport ev (weather_request location key))"
  then obtain e
    where "basic_body lib location (transport ev (weather_request location key)) = Inl e"
      and "is_exception e"
    using fault_basic by blast
  with assms try_except_error [of e]
  show "\<exists>s. get_real_weather lib ev location = (Inr s, [weather_request location key]) \<and>
            has_error_indicator s"
    by (simp add: get_real_weather_def)
next
  assume "upstream_fault (\<lambda>d. isl (bind_e (extract_detailed d) (detailed_report lib location)))
            (transport ev (weather_request location key))"
  then obtain e
    where "detailed_body lib location (transport ev (weather_request location key)) = Inl e"
      and "is_exception e"
    using fault_detailed by blast
  with assms try_except_error [of e]
  show "\<exists>s. get_real_weather_detailed lib ev location = (Inr s, [weather_request location key]) \<and>
            has_error_indicator s"
    by (simp add: get_real_weather_detailed_def)
qed

theorem weather_never_raises_witness:
  "api_key (sample_env 200 (Inr (JObj []))) = Some (u ''k'') \<and> u ''k'' \<noteq> [] \<and>
   upstream_fault (\<lambda>d. isl (extract_basic d))
     (transport (sample_env 200 (Inr (JObj []))) (weather_request (u ''Seattle'') (u ''k''))) \<and>
   (\<exists>s. get_real_weather sample_lib (sample_env 200 (Inr (JObj []))) (u ''Seattle'') =
          (Inr s, [weather_request (u ''Seattle'') (u ''k'')]) \<and> has_error_indicator s) \<and>
   upstream_fault (\<lambda>d. isl (bind_e (extract_detailed d) (detailed_report sample_lib (u ''Seattle''))))
     (transport (sample_env 200 (Inr (JObj []))) (weather_request (u ''Seattle'') (u ''k''))) \<and>
   (\<exists>s. get_real_weather_detailed sample_lib (sample_env 200 (Inr (JObj []))) (u ''Seattle'') =
          (Inr s, [weather_request (u ''Seattle'') (u ''k'')]) \<and> has_error_indicator s)"
  using weather_never_raises
    [of "sample_env 200 (Inr (JObj []))" "u ''k''" "u ''Seattle''" sample_lib]
  by (simp add: sample_env_def upstream_fault_def extract_basic_def extract_detailed_def
      main_field_def bind_e_def u_def)

lemma extract_sample:
  "extract_basic sample_body =
     Inr \<lparr>weather_desc = JStr (u ''clear sky''), temp = JFloat (u ''15.5''),
          feels_like = JFloat (u ''14.2''), humidity = JInt 65, wind_speed = JFloat (u ''3.6'')\<rparr>"
  by (simp add: extract_basic_def sample_body_def bind_e_def u_def)

text \<open>
  C2, as the code has it. For every location and every response of the upstream service,
  \<open>get_real_weather\<close> returns: on status 200 with a body that has the fields read, the
  header line \<open>Weather in <location>:\<close> followed by four lines giving the description, the
  temperature with the feels-like value, the humidity and the wind speed (five lines in
  all), joined by line feeds; on status 401 the fixed invalid-key text; on status 404 the
  fixed not-found text naming the location; on any other status the generic text with the
  status in decimal. One request is sent in each case.
\<close>

theorem status_mapping:
  assumes "api_key ev = Some key" and "key \<noteq> []"
    and "transport ev (weather_request location key) = Inr resp"
  shows "(status resp = 200 \<and> json_result resp = Inr data \<and> extract_basic data = Inr b \<longrightarrow>
            get_real_weather lib ev location =
              (Inr (join (u ''\<newline>'')
                 [u ''Weather in '' @ location @ u '':'',
                  u ''- Conditions: '' @ py_format lib (weather_desc b),
                  u ''- Temperature: '' @ py_format lib (temp b) @ [176] @ u ''C (feels like '' @
                    py_format lib (feels_like b) @ [176] @ u ''C)'',
                  u ''- Humidity: '' @ py_format lib (humidity b) @ u ''%'',
                  u ''- Wind Speed: '' @ py_format lib (wind_speed b) @ u '' m/s'']),
               [weather_request location key])) \<and>
         (status resp = 401 \<longrightarrow>
            get_real_weather lib ev location =
              (Inr (u ''Error: Invalid API key. Please check your OPENWEATHERMAP_API_KEY.''),
               [weather_request location key])) \<and>
         (status resp = 404 \<longrightarrow>
            get_real_weather lib ev location =
              (Inr (u ''Error: City '' @ [39] @ location @ [39] @
                    u '' not found. Try using format like '' @ [39] @ u ''Seattle'' @ [39] @
                    u '' or '' @ [39] @ u ''London,UK'' @ [39] @ u ''.''),
               [weather_request location key])) \<and>
         (status resp \<noteq> 200 \<and> status resp \<noteq> 401 \<and> status resp \<noteq> 404 \<longrightarrow>
            get_real_weather lib ev location =
              (Inr (u ''Error: Could not fetch weather for '' @ location @ u '' (Status: '' @
                    show_int (status resp) @ u '')''),
               [weather_request location key]))"
  using assms
  by (simp add: get_real_weather_def basic_body_def bind_e_def basic_report_def try_except_def
      invalid_key_message_def not_found_message_def other_status_message_def u_def)

theorem status_mapping_witness:
  "api_key (sample_env 200 (Inr sample_body)) = Some (u ''k'') \<and> u ''k'' \<noteq> [] \<and>
   transport (sample_env 200 (Inr sample_body)) (weather_request (u ''Seattle'') (u ''k'')) =
     Inr \<lparr>status = 200, json_result = Inr sample_body\<rparr> \<and>
   extract_basic sample_body =
     Inr \<lparr>weather_desc = JStr (u ''clear sky''), temp = JFloat (u ''15.5''),
          feels_like = JFloat (u ''14.2''), humidity = JInt 65, wind_speed = JFloat (u ''3.6'')\<rparr> \<and>
   get_real_weather sample_lib (sample_env 200 (Inr sample_body)) (u ''Seattle'') =
     (Inr (join (u ''\<newline>'')
        [u ''Weather in Seattle:'', u ''- Conditions: clear sky'',
         u ''- Temperature: 15.5'' @ [176] @ u ''C (feels like 14.2'' @ [176] @ u ''C)'',
         u ''- Humidity: 65%'', u ''- Wind Speed: 3.6 m/s'']),
      [weather_request (u ''Seattle'') (u ''k'')]) \<and>
   get_real_weather sample_lib (sample_env 401 (Inr JNull)) (u ''Seattle'') =
     (Inr (u ''Error: Invalid API key. Please check your OPENWEATHERMAP_API_KEY.''),
      [weather_request (u ''Seattle'') (u ''k'')]) \<and>
   get_real_weather sample_lib (sample_env 404 (Inr JNull)) (u ''Atlantis'') =
     (Inr (u ''Error: City '' @ [39] @ u ''Atlantis'' @ [39] @
           u '' not found. Try using format like '' @ [39] @ u ''Seattle'' @ [39] @
           u '' or '' @ [39] @ u ''London,UK'' @ [39] @ u ''.''),
      [weather_request (u ''Atlantis'') (u ''k'')]) \<and>
   get_real_weather sample_lib (sample_env 500 (Inr JNull)) (u ''Seattle'') =
     (Inr (u ''Error: Could not fetch weather for Seattle (Status: 500)''),
      [weather_request (u ''Seattle'') (u ''k'')])"
  using
    status_mapping
      [of "sample_env 200 (Inr sample_body)" "u ''k''" "u ''Seattle''"
          "\<lparr>status = 200, json_result = Inr sample_body\<rparr>" sample_body
          "\<lparr>weather_desc = JStr (u ''clear sky''), temp = JFloat (u ''15.5''),
            feels_like = JFloat (u ''14.2''), humidity = JInt 65, wind_speed = JFloat (u ''3.6'')\<rparr>"
          sample_lib]
    status_mapping
      [of "sample_env 401 (Inr JNull)" "u ''k''" "u ''Seattle''"
          "\<lparr>status = 401, json_result = Inr JNull\<rparr>" JNull undefined sample_lib]
    status_mapping
      [of "sample_env 404 (Inr JNull)" "u ''k''" "u ''Atlantis''"
          "\<lparr>status = 404, json_result = Inr JNull\<rparr>" JNull undefined sample_lib]
    status_mapping
      [of "sample_env 500 (Inr JNull)" "u ''k''" "u ''Seattle''"
          "\<lparr>status = 500, json_result = Inr JNull\<rparr>" JNull undefined sample_lib]
    extract_sample
  by (simp add: sample_env_def sample_lib_def show_int_def u_def)

text \<open>
  C2 as stated fails: for the location \<open>Seattle\<close> and a well-formed body the report has five
  lines, not four.
\<close>

theorem four_line_report_counterexample:
  "get_real_weather sample_lib (sample_env 200 (Inr sample_body)) (u ''Seattle'') =
     (Inr sample_report, [weather_request (u ''Seattle'') (u ''k'')]) \<and>
   line_count sample_report = 5 \<and> line_count sample_report \<noteq> 4"
  by (simp add: get_real_weather_def sample_env_def basic_body_def bind_e_def extract_sample
      basic_report_def sample_lib_def sample_report_def show_int_def line_count_def u_def
      try_except_def)

section \<open>Properties of the converter\<close>

lemma rstrip_eq_Nil: "rstrip t = [] \<longleftrightarrow> (\<forall>c\<in>set t. is_space c)"
  by (simp add: rstrip_def)

lemma rstrip_Cons:
  "rstrip (x # t) = (if rstrip t = [] \<and> is_space x then [] else x # rstrip t)"
  by (auto simp: rstrip_def dropWhile_append)

lemma rstrip_append: "rstrip t \<noteq> [] \<Longrightarrow> rstrip (a @ t) = a @ rstrip t"
  by (induction a) (simp_all add: rstrip_Cons)

lemma rstrip_idem: "rstrip (rstrip t) = rstrip t"
  by (simp add: rstrip_def)

lemma lstrip_rstrip: "lstrip (rstrip t) = rstrip (lstrip t)"
proof (induction t)
  case Nil
  show ?case by (simp add: lstrip_def rstrip_def)
next
  case (Cons x t)
  show ?case
  proof (cases "is_space x")
    case True
    then have l: "lstrip (x # t) = lstrip t" by (simp add: lstrip_def)
    show ?thesis
    proof (cases "rstrip t = []")
      case True
      with \<open>is_space x\<close> have "rstrip (x # t) = []" by (simp add: rstrip_Cons)
      moreover from True Cons.IH have "rstrip (lstrip t) = []" by (simp add: lstrip_def)
      ultimately show ?thesis using l by (simp add: lstrip_def)
    next
      case False
      then have "rstrip (x # t) = x # rstrip t" by (simp add: rstrip_Cons)
      with \<open>is_space x\<close> have "lstrip (rstrip (x # t)) = lstrip (rstrip t)" by (simp add: lstrip_def)
      with Cons.IH l show ?thesis by simp
    qed
  next
    case False
    then show ?thesis by (simp add: lstrip_def rstrip_Cons)
  qed
qed

lemma strip_lstrip_rstrip: "strip (lstrip (rstrip t)) = strip t"
proof -
  have "strip (lstrip (rstrip t)) = rstrip (lstrip (lstrip (rstrip t)))" by (simp add: strip_def)
  also have "\<dots> = rstrip (lstrip (rstrip t))" by (simp add: lstrip_def)
  also have "\<dots> = rstrip (rstrip (lstrip t))" by (simp add: lstrip_rstrip)
  also have "\<dots> = strip t" by (simp add: rstrip_idem strip_def)
  finally show ?thesis .
qed

lemma strip_eq_Nil: "strip t = [] \<longleftrightarrow> (\<forall>c\<in>set t. is_space c)"
proof -
  have "strip t = [] \<longleftrightarrow> (\<forall>c\<in>set (dropWhile is_space t). is_space c)"
    by (simp add: strip_def lstrip_def rstrip_eq_Nil)
  also have "\<dots> \<longleftrightarrow> (\<forall>c\<in>set t. is_space c)"
    by (induction t) auto
  finally show ?thesis .
qed

text \<open>Stripping removes characters only, and the texts of the examples are XML compatible.\<close>

lemma xml_compatible_ascii: "\<forall>c\<in>set t. 32 \<le> c \<and> c \<le> 126 \<Longrightarrow> xml_compatible t"
  by (auto simp: xml_compatible_def xml_char_def list_all_iff)

lemma xml_compatible_append: "xml_compatible (a @ b) \<longleftrightarrow> xml_compatible a \<and> xml_compatible b"
  by (simp add: xml_compatible_def)


text \<open>The cell loop in closed form.\<close>

lemma assign_cells_eq:
  "i \<le> length cells \<Longrightarrow> \<forall>c\<in>set row. xml_compatible (strip c) \<Longrightarrow>
   assign_cells cells i row =
     (if i + length row \<le> length cells
      then Inr (take i cells @ map strip row @ drop (i + length row) cells)
      else Inl (IndexError (u ''tuple index out of range'')))"
proof (induction row arbitrary: cells i)
  case Nil
  then show ?case by simp
next
  case (Cons col cols)
  show ?case
  proof (cases "i < length cells")
    case True
    from Cons.prems have ok: "xml_compatible (strip col)" and rest: "\<forall>c\<in>set cols. xml_compatible (strip c)"
      by simp_all
    from True ok
    have "assign_cells cells i (col # cols) = assign_cells (cells[i := strip col]) (Suc i) cols"
      by simp
    also have "\<dots> = (if Suc i + length cols \<le> length cells
        then Inr (take (Suc i) (cells[i := strip col]) @ map strip cols @
                  drop (Suc i + length cols) (cells[i := strip col]))
        else Inl (IndexError (u ''tuple index out of range'')))"
      using True rest Cons.IH [of "Suc i" "cells[i := strip col]"] by simp
    also have "take (Suc i) (cells[i := strip col]) = take i cells @ [strip col]"
      using True by (simp add: take_Suc_conv_app_nth)
    finally show ?thesis by simp
  next
    case False
    then show ?thesis by simp
  qed
qed

lemma fresh_row_cells:
  "\<forall>c\<in>set row. xml_compatible (strip c) \<Longrightarrow>
   assign_cells (add_row n) 0 row =
     (if length row \<le> n then Inr (map strip row @ replicate (n - length row) [])
      else Inl (IndexError (u ''tuple index out of range'')))"
  by (simp add: assign_cells_eq add_row_def)

lemma add_body_rows_fit:
  "\<forall>r\<in>set rows. length r \<le> n \<Longrightarrow> \<forall>r\<in>set rows. \<forall>c\<in>set r. xml_compatible (strip c) \<Longrightarrow>
   add_body_rows n rows = Inr (map (\<lambda>r. map strip r @ replicate (n - length r) []) rows)"
  by (induction rows) (simp_all add: fresh_row_cells bind_e_def)

lemma sample_cells:
  "strip (u ''A'') = u ''A''" "strip (u ''B'') = u ''B''"
  "strip (u ''1'') = u ''1''" "strip (u ''2'') = u ''2''"
  "xml_compatible (u ''A'')" "xml_compatible (u ''B'')"
  "xml_compatible (u ''1'')" "xml_compatible (u ''2'')"
  by (simp_all add: u_def strip_def lstrip_def rstrip_def is_space_def xml_compatible_def xml_char_def)

text \<open>
  C10, as the code has it. \<open>add_table\<close> gives the table as many columns as the first
  captured row has cells and fills each row by position. So for every table whose body
  rows have at most as many cells as the first row, and whose cells, stripped, hold only
  XML-compatible characters, it returns, with the table appended (short rows padded with
  empty cells); and for the rows \<open>[["A"], ["1", "2"]]\<close> the index is out of range:
  \<open>add_table\<close> raises \<open>IndexError\<close>, and the conversion of the file \<open>| A |\<close>, \<open>| 1 | 2 |\<close>
  ends with that exception unhandled.
\<close>

theorem add_table_index_safety:
  "((\<forall>r\<in>set (tl rows). length r \<le> length (hd rows)) \<and>
    (\<forall>r\<in>set rows. \<forall>c\<in>set r. xml_compatible (strip c)) \<longrightarrow>
      add_table d rows =
        Inr (if rows = [] then d
             else d\<lparr>body := body d @
               [Table (map (\<lambda>r. map strip r @ replicate (length (hd rows) - length r) []) rows)]\<rparr>)) \<and>
   add_table d [[u ''A''], [u ''1'', u ''2'']] = Inl (IndexError (u ''tuple index out of range'')) \<and>
   outcome (convert_md_to_docx st \<lparr>md_file = Some (u ''| A |\<newline>| 1 | 2 |\<newline>''), docx_file = old\<rparr>)
     = Raised (IndexError (u ''tuple index out of range''))"
proof (intro conjI impI)
  assume "(\<forall>r\<in>set (tl rows). length r \<le> length (hd rows)) \<and>
    (\<forall>r\<in>set rows. \<forall>c\<in>set r. xml_compatible (strip c))"
  then have fit: "\<forall>r\<in>set (tl rows). length r \<le> length (hd rows)"
    and ok: "\<forall>r\<in>set rows. \<forall>c\<in>set r. xml_compatible (strip c)"
    by simp_all
  show "add_table d rows =
        Inr (if rows = [] then d
             else d\<lparr>body := body d @
               [Table (map (\<lambda>r. map strip r @ replicate (length (hd rows) - length r) []) rows)]\<rparr>)"
  proof (cases rows)
    case Nil
    then show ?thesis by (simp add: add_table_def)
  next
    case (Cons first rest)
    with fit have fitr: "\<forall>r\<in>set rest. length r \<le> length first" by simp
    from Cons ok have okr: "\<forall>r\<in>set rest. \<forall>c\<in>set r. xml_compatible (strip c)"
      and okf: "\<forall>c\<in>set first. xml_compatible (strip c)" by simp_all
    have "add_body_rows (length first) rest =
        Inr (map (\<lambda>r. map strip r @ replicate (length first - length r) []) rest)"
      using fitr okr by (rule add_body_rows_fit)
    with Cons okf show ?thesis
      by (simp add: add_table_def fresh_row_cells bind_e_def del: assign_cells.simps)
  qed
next
  show "add_table d [[u ''A''], [u ''1'', u ''2'']] = Inl (IndexError (u ''tuple index out of range''))"
    by (simp add: add_table_def fresh_row_cells sample_cells bind_e_def del: assign_cells.simps)
next
  have lines: "iter_lines (u ''| A |\<newline>| 1 | 2 |\<newline>'') = [u ''| A |'', u ''| 1 | 2 |'']"
    by (simp add: iter_lines_def u_def)
  have s1: "step (initial_state (template st)) (u ''| A |'') =
      Inr ((initial_state (template st))\<lparr>table_buffer := [[u ''A'']]\<rparr>)"
    by (simp add: step_def initial_state_def u_def rstrip_def lstrip_def strip_def is_space_def
        fence_match_def heading_match_def table_row_match_def table_cells_def alignment_cell_def)
  have s2: "step ((initial_state (template st))\<lparr>table_buffer := [[u ''A'']]\<rparr>) (u ''| 1 | 2 |'') =
      Inr ((initial_state (template st))\<lparr>table_buffer := [[u ''A''], [u ''1'', u ''2'']]\<rparr>)"
    by (simp add: step_def initial_state_def u_def rstrip_def lstrip_def strip_def is_space_def
        fence_match_def heading_match_def table_row_match_def table_cells_def alignment_cell_def)
  have run: "run_lines (initial_state (template st)) [u ''| A |'', u ''| 1 | 2 |''] =
      Inr ((initial_state (template st))\<lparr>table_buffer := [[u ''A''], [u ''1'', u ''2'']]\<rparr>)"
    by (simp add: s1 s2 bind_e_def)
  have "convert_lines (template st) [u ''| A |'', u ''| 1 | 2 |''] =
      Inl (IndexError (u ''tuple index out of range''))"
    by (simp only: convert_lines_def run)
       (simp add: bind_e_def flush_code_def flush_table_def
        add_table_def fresh_row_cells sample_cells initial_state_def del: assign_cells.simps)
  with lines
  show "outcome (convert_md_to_docx st \<lparr>md_file = Some (u ''| A |\<newline>| 1 | 2 |\<newline>''), docx_file = old\<rparr>)
     = Raised (IndexError (u ''tuple index out of range''))"
    by (simp add: convert_md_to_docx_def)
qed

theorem add_table_index_safety_witness:
  "length [u ''1''] \<le> length [u ''A'', u ''B''] \<and>
   xml_compatible (strip (u ''A'')) \<and> xml_compatible (strip (u ''B'')) \<and>
   xml_compatible (strip (u ''1'')) \<and>
   add_table \<lparr>styles = [], body = []\<rparr> [[u ''A'', u ''B''], [u ''1'']] =
     Inr \<lparr>styles = [], body = [Table [[u ''A'', u ''B''], [u ''1'', []]]]\<rparr>"
  using add_table_index_safety [of "[[u ''A'', u ''B''], [u ''1'']]" "\<lparr>styles = [], body = []\<rparr>"]
  by (simp add: sample_cells)

text \<open>
  C10 as stated fails: the rows \<open>[["A", "B"], ["1\x01", "2"]]\<close> fit the width of the first
  row, and yet \<open>add_table\<close> raises, \<open>ValueError\<close>, at the cell with the control character.
\<close>

theorem fitting_table_counterexample:
  "length [[49, 1], u ''2''] \<le> length [u ''A'', u ''B''] \<and>
   add_table \<lparr>styles = [], body = []\<rparr> [[u ''A'', u ''B''], [[49, 1], u ''2'']] = Inl xml_error"
  by (simp add: add_table_def add_row_def bind_e_def sample_cells strip_def lstrip_def rstrip_def
      is_space_def xml_compatible_def xml_char_def)












lemmas line_eval =
  step_def u_def rstrip_def lstrip_def strip_def is_space_def fence_match_def heading_match_def
  table_row_match_def table_cells_def alignment_cell_def

lemmas doc_eval =
  convert_lines_def bind_e_def flush_code_def flush_table_def add_code_block_def add_table_def
  add_row_def add_paragraph_def add_heading_def initial_state_def ensure_mono_style_def
  new_document_def



text \<open>
  C7. When the markdown source does not exist, \<open>convert_md_to_docx\<close> ends with
  \<open>SystemExit\<close> carrying a message that gives the missing path, the exit status is not
  zero, and the files are as they were: no document is written.
\<close>

theorem missing_source_is_fatal:
  assumes "md_file fs = None"
  shows "outcome (convert_md_to_docx st fs) = SystemExit (u ''Markdown file not found: '' @ md_path st) \<and>
         exit_status (outcome (convert_md_to_docx st fs)) \<noteq> 0 \<and>
         files_after (convert_md_to_docx st fs) = fs"
  using assms by (simp add: convert_md_to_docx_def)

theorem missing_source_is_fatal_witness:
  "md_file \<lparr>md_file = None, docx_file = Some \<lparr>styles = [], body = [Heading 1 (u ''old'')]\<rparr>\<rparr> = None \<and>
   outcome (convert_md_to_docx
       \<lparr>cwd = u ''/work'', md_path = u ''/repo/architecture_components.md'', template = [],
        file_size = (\<lambda>d. 0)\<rparr>
       \<lparr>md_file = None, docx_file = Some \<lparr>styles = [], body = [Heading 1 (u ''old'')]\<rparr>\<rparr>) =
     SystemExit (u ''Markdown file not found: /repo/architecture_components.md'') \<and>
   exit_status (outcome (convert_md_to_docx
       \<lparr>cwd = u ''/work'', md_path = u ''/repo/architecture_components.md'', template = [],
        file_size = (\<lambda>d. 0)\<rparr>
       \<lparr>md_file = None, docx_file = Some \<lparr>styles = [], body = [Heading 1 (u ''old'')]\<rparr>\<rparr>)) = 1 \<and>
   files_after (convert_md_to_docx
       \<lparr>cwd = u ''/work'', md_path = u ''/repo/architecture_components.md'', template = [],
        file_size = (\<lambda>d. 0)\<rparr>
       \<lparr>md_file = None, docx_file = Some \<lparr>styles = [], body = [Heading 1 (u ''old'')]\<rparr>\<rparr>) =
     \<lparr>md_file = None, docx_file = Some \<lparr>styles = [], body = [Heading 1 (u ''old'')]\<rparr>\<rparr>"
  using missing_source_is_fatal
    [of "\<lparr>md_file = None, docx_file = Some \<lparr>styles = [], body = [Heading 1 (u ''old'')]\<rparr>\<rparr>"
        "\<lparr>cwd = u ''/work'', md_path = u ''/repo/architecture_components.md'', template = [],
          file_size = (\<lambda>d. 0)\<rparr>"]
  by (simp add: u_def)

text \<open>
  C6. The three lines \<open>| A | B |\<close>, \<open>|---|---|\<close>, \<open>| 1 | 2 |\<close> convert to one table with the
  header row \<open>["A", "B"]\<close> and the single body row \<open>["1", "2"]\<close>; outside a fence, with no
  row pending, they leave exactly these two rows in the table buffer, which the flush
  renders as that table; the alignment line changes nothing; and \<open>add_table\<close> on no rows,
  like a flush of an empty table buffer, adds nothing.
\<close>

theorem table_parsing:
  "convert_lines ts [u ''| A | B |'', u ''|---|---|'', u ''| 1 | 2 |''] =
     Inr ((ensure_mono_style (new_document ts))
            \<lparr>body := [Table [[u ''A'', u ''B''], [u ''1'', u ''2'']]]\<rparr>) \<and>
   run_lines (s\<lparr>in_code := False, table_buffer := []\<rparr>)
       [u ''| A | B |'', u ''|---|---|'', u ''| 1 | 2 |''] =
     Inr (s\<lparr>in_code := False, table_buffer := [[u ''A'', u ''B''], [u ''1'', u ''2'']]\<rparr>) \<and>
   flush_table (s\<lparr>table_buffer := [[u ''A'', u ''B''], [u ''1'', u ''2'']]\<rparr>) =
     Inr (s\<lparr>doc := (doc s)\<lparr>body := body (doc s) @ [Table [[u ''A'', u ''B''], [u ''1'', u ''2'']]]\<rparr>,
            table_buffer := []\<rparr>) \<and>
   step (s\<lparr>in_code := False\<rparr>) (u ''|---|---|'') = Inr (s\<lparr>in_code := False\<rparr>) \<and>
   add_table d [] = Inr d \<and>
   flush_table (s\<lparr>table_buffer := []\<rparr>) = Inr (s\<lparr>table_buffer := []\<rparr>)"
proof -
  have a: "\<not> in_code t \<Longrightarrow> step t (u ''| A | B |'') =
      Inr (t\<lparr>table_buffer := table_buffer t @ [[u ''A'', u ''B'']]\<rparr>)" for t
    by (simp add: line_eval)
  have b: "\<not> in_code t \<Longrightarrow> step t (u ''|---|---|'') = Inr t" for t
    by (simp add: line_eval)
  have c: "\<not> in_code t \<Longrightarrow> step t (u ''| 1 | 2 |'') =
      Inr (t\<lparr>table_buffer := table_buffer t @ [[u ''1'', u ''2'']]\<rparr>)" for t
    by (simp add: line_eval)
  have run: "\<not> in_code t \<Longrightarrow> table_buffer t = [] \<Longrightarrow>
     run_lines t [u ''| A | B |'', u ''|---|---|'', u ''| 1 | 2 |''] =
     Inr (t\<lparr>table_buffer := [[u ''A'', u ''B''], [u ''1'', u ''2'']]\<rparr>)" for t
    by (simp add: a b c bind_e_Inr)
  have fl: "flush_table (t\<lparr>table_buffer := [[u ''A'', u ''B''], [u ''1'', u ''2'']]\<rparr>) =
     Inr (t\<lparr>doc := (doc t)\<lparr>body := body (doc t) @ [Table [[u ''A'', u ''B''], [u ''1'', u ''2'']]]\<rparr>,
            table_buffer := []\<rparr>)" for t
    by (simp add: flush_table_def add_table_def fresh_row_cells bind_e_Inr sample_cells
        del: assign_cells.simps)
  have "run_lines (initial_state ts) [u ''| A | B |'', u ''|---|---|'', u ''| 1 | 2 |''] =
     Inr ((initial_state ts)\<lparr>table_buffer := [[u ''A'', u ''B''], [u ''1'', u ''2'']]\<rparr>)"
    by (rule run) (simp_all add: initial_state_def)
  then have conv: "convert_lines ts [u ''| A | B |'', u ''|---|---|'', u ''| 1 | 2 |''] =
     Inr ((ensure_mono_style (new_document ts))
            \<lparr>body := [Table [[u ''A'', u ''B''], [u ''1'', u ''2'']]]\<rparr>)"
    by (simp only: convert_lines_def bind_e_Inr)
       (simp add: flush_code_def initial_state_def flush_table_def add_table_def fresh_row_cells
          bind_e_Inr sample_cells ensure_mono_style_def new_document_def Let_def
          del: assign_cells.simps)
  show ?thesis
    using conv run [of "s\<lparr>in_code := False, table_buffer := []\<rparr>"] fl [of s]
      b [of "s\<lparr>in_code := False\<rparr>"]
    by (simp add: add_table_def flush_table_def)
qed

lemma not_space_hash: "\<not> is_space 35"
  by (simp add: is_space_def)

text \<open>
  C5, as the code has it. Outside a fence, a line made of \<open>n\<close> hash signs,
  \<open>1 \<le> n \<le> 6\<close>, then whitespace, then a text with a visible character appends a heading
  block of level \<open>min n 4\<close> with the stripped text, provided that the pending table, if
  any, is flushed without error and that the stripped text holds only XML-compatible
  characters.
\<close>

theorem heading_level:
  assumes n: "1 \<le> n" "n \<le> 6"
    and ws: "ws \<noteq> []" "\<forall>c\<in>set ws. is_space c"
    and shown: "strip text \<noteq> []"
    and nl: "10 \<notin> set ws \<union> set text"
    and compat: "xml_compatible (strip text)"
    and out: "\<not> in_code s"
    and flushed: "flush_table s = Inr s1"
  shows "step s (replicate n 35 @ ws @ text) =
           Inr (s1\<lparr>doc := (doc s1)\<lparr>body := body (doc s1) @ [Heading (min n 4) (strip text)]\<rparr>\<rparr>)"
proof -
  let ?line = "replicate n 35 @ ws @ rstrip text"
  from shown have vis: "\<not> (\<forall>c\<in>set text. is_space c)" by (simp add: strip_eq_Nil)
  then have r: "rstrip text \<noteq> []" by (simp add: rstrip_eq_Nil)
  then have "rstrip (ws @ text) = ws @ rstrip text" by (rule rstrip_append)
  with r have line: "rstrip (replicate n 35 @ ws @ text) = ?line"
    using rstrip_append [of "ws @ text" "replicate n 35"] by simp
  from n obtain m where m: "n = Suc m" by (cases n) auto
  have nofence: "fence_match ?line = None"
    by (simp add: fence_match_def m)
  have "35 \<in> set ?line" using n by simp
  with not_space_hash have visible: "strip ?line \<noteq> []"
    unfolding strip_eq_Nil by blast
  from ws obtain w ws' where w: "ws = w # ws'" "is_space w" by (cases ws) auto
  with not_space_hash have w35: "w \<noteq> 35" by auto
  have tw: "takeWhile (\<lambda>c. c = 35) ?line = replicate n 35"
    using w w35 by (simp add: takeWhile_append)
  have dw: "dropWhile (\<lambda>c. c = 35) ?line = ws @ rstrip text"
    using w w35 by (simp add: dropWhile_append)
  have grp: "dropWhile is_space (ws @ rstrip text) = lstrip (rstrip text)"
    using ws(2) by (simp add: lstrip_def)
  have ne: "ws @ rstrip text \<noteq> []" using ws(1) by simp
  have sp: "is_space (hd (ws @ rstrip text))" using w by simp
  have hm: "heading_match ?line = Some (replicate n 35, lstrip (rstrip text))"
    unfolding heading_match_def Let_def tw dw grp
    using n ne sp by simp
  have lvl: "(if n \<le> 4 then n else 4) = min n 4" by simp
  show ?thesis
    using out flushed compat
    by (simp add: step_def line nofence visible hm bind_e_Inr add_heading_def
        strip_lstrip_rstrip lvl del: replicate.simps)
qed

theorem heading_level_witness:
  "(1::nat) \<le> 6 \<and> (6::nat) \<le> 6 \<and> u '' '' \<noteq> [] \<and> list_all is_space (u '' '') \<and>
   strip (u ''Deep title  '') \<noteq> [] \<and> 10 \<notin> set (u '' '') \<union> set (u ''Deep title  '') \<and>
   xml_compatible (strip (u ''Deep title  '')) \<and>
   \<not> in_code (initial_state []) \<and> flush_table (initial_state []) = Inr (initial_state []) \<and>
   step (initial_state []) (u ''###### Deep title  '') =
     Inr ((initial_state [])\<lparr>doc := \<lparr>styles = [u ''CodeBlock'', u ''TableHeader''],
                                       body = [Heading 4 (u ''Deep title'')]\<rparr>\<rparr>)"
proof -
  have h3: "u '' '' \<noteq> []" and h4: "\<forall>c\<in>set (u '' ''). is_space c"
    by (simp_all add: u_def is_space_def)
  have st: "strip (u ''Deep title  '') = u ''Deep title''"
    by (simp add: line_eval)
  then have h5: "strip (u ''Deep title  '') \<noteq> []" by (simp add: u_def)
  have h6: "10 \<notin> set (u '' '') \<union> set (u ''Deep title  '')" by (simp add: u_def)
  have h9: "xml_compatible (strip (u ''Deep title  ''))"
    by (simp add: st) (simp add: u_def xml_compatible_def xml_char_def)
  have h7: "\<not> in_code (initial_state [])" by (simp add: initial_state_def)
  have h8: "flush_table (initial_state []) = Inr (initial_state [])"
    by (simp add: flush_table_def initial_state_def)
  have line: "replicate 6 35 @ u '' '' @ u ''Deep title  '' = u ''###### Deep title  ''"
    by (simp add: u_def eval_nat_numeral)
  have d: "doc (initial_state []) = \<lparr>styles = [u ''CodeBlock'', u ''TableHeader''], body = []\<rparr>"
    by (simp add: initial_state_def ensure_mono_style_def new_document_def Let_def u_def)
  have "step (initial_state []) (u ''###### Deep title  '') =
     Inr ((initial_state [])\<lparr>doc := \<lparr>styles = [u ''CodeBlock'', u ''TableHeader''],
                                       body = [Heading 4 (u ''Deep title'')]\<rparr>\<rparr>)"
    using heading_level [of 6 "u '' ''" "u ''Deep title  ''" "initial_state []" "initial_state []",
        OF _ _ h3 h4 h5 h6 h9 h7 h8]
    by (simp add: line st d)
  with h3 h4 h5 h6 h7 h8 h9 show ?thesis by (simp add: list_all_iff)
qed

text \<open>
  C5 as stated fails: outside a fence, the two-marker heading line whose text holds the
  control character U+0001 ends the conversion with \<open>ValueError\<close>, and a heading line that
  follows the table rows \<open>| A |\<close>, \<open>| 1 | 2 |\<close> ends it with \<open>IndexError\<close>; no heading block
  is emitted in either case.
\<close>

theorem heading_counterexample:
  "convert_lines [] [u ''## a'' @ [1] @ u ''b''] = Inl xml_error \<and>
   convert_lines [] [u ''| A |'', u ''| 1 | 2 |'', u ''## Title''] =
     Inl (IndexError (u ''tuple index out of range''))"
proof -
  have a: "step (initial_state []) (u ''## a'' @ [1] @ u ''b'') = Inl xml_error"
    by (simp add: line_eval doc_eval xml_compatible_def xml_char_def)
  have b1: "step (initial_state []) (u ''| A |'') =
      Inr ((initial_state [])\<lparr>table_buffer := [[u ''A'']]\<rparr>)"
    by (simp add: line_eval initial_state_def)
  have b2: "step ((initial_state [])\<lparr>table_buffer := [[u ''A'']]\<rparr>) (u ''| 1 | 2 |'') =
      Inr ((initial_state [])\<lparr>table_buffer := [[u ''A''], [u ''1'', u ''2'']]\<rparr>)"
    by (simp add: line_eval initial_state_def)
  have b3: "step ((initial_state [])\<lparr>table_buffer := [[u ''A''], [u ''1'', u ''2'']]\<rparr>) (u ''## Title'') =
      Inl (IndexError (u ''tuple index out of range''))"
    by (simp add: line_eval doc_eval xml_compatible_def xml_char_def)
  show ?thesis
    by (simp only: convert_lines_def run_lines.simps a b1 b2 b3 bind_e_Inr bind_e_Inl simp_thms)
qed


section \<open>Properties of the slide deck generator\<close>

lemma split_on_not_Nil: "split_on c s \<noteq> []"
  by (induction s) (auto split: list.splits)

lemma hd_style_first_set_text: "p_font (hd (style_first f (set_text t))) = f plain_font"
proof -
  obtain x xs where "split_on 10 t = x # xs"
    using split_on_not_Nil [of 10 t] by (cases "split_on 10 t") auto
  then show ?thesis by (simp add: style_first_def set_text_def new_paragraph_def)
qed

lemma text_style_first: "map p_text (style_first f ps) = map p_text ps"
  by (cases ps) (simp_all add: style_first_def)

lemma text_set_text: "map p_text (set_text t) = split_on 10 t"
  by (simp add: set_text_def new_paragraph_def comp_def)

lemma title_text:
  "map p_text (slide_title (TitleSlide (style_first f (set_text t)) sub)) = split_on 10 t"
  "map p_text (slide_title (ContentSlide i (style_first f (set_text t)) b)) = split_on 10 t"
  "map p_text (slide_title (TwoColumnSlide (style_first f (set_text t)) l r)) = split_on 10 t"
  "map p_text (slide_title (CodeSlide (tb\<lparr>tb_paragraphs := style_first f (set_text t)\<rparr>) cb)) = split_on 10 t"
  by (simp_all add: text_style_first text_set_text)

lemma split_on_plain: "c \<notin> set s \<Longrightarrow> split_on c s = [s]"
  by (induction s) auto

lemma Inches_values: "Inches 10 = 9144000" "Inches (15 / 2) = 6858000"
  by (simp_all add: Inches_def)

lemma constructor_canvas:
  "slide_width (create_title_slide prs t s) = slide_width prs"
  "slide_height (create_title_slide prs t s) = slide_height prs"
  "slide_width (create_content_slide prs t items i) = slide_width prs"
  "slide_height (create_content_slide prs t items i) = slide_height prs"
  "slide_width (create_two_column_slide prs t l r) = slide_width prs"
  "slide_height (create_two_column_slide prs t l r) = slide_height prs"
  "slide_width (create_code_slide prs t c lang) = slide_width prs"
  "slide_height (create_code_slide prs t c lang) = slide_height prs"
  by (simp_all add: create_title_slide_def create_content_slide_def create_two_column_slide_def
      create_code_slide_def)

lemma constructor_kinds:
  "map kind (slides (create_title_slide prs t s)) = map kind (slides prs) @ [Title]"
  "map kind (slides (create_content_slide prs t items i)) = map kind (slides prs) @ [Content]"
  "map kind (slides (create_two_column_slide prs t l r)) = map kind (slides prs) @ [TwoColumn]"
  "map kind (slides (create_code_slide prs t c lang)) = map kind (slides prs) @ [Code]"
  by (simp_all add: create_title_slide_def create_content_slide_def create_two_column_slide_def
      create_code_slide_def)

lemma constructor_titles:
  "map (\<lambda>s. map p_text (slide_title s)) (slides (create_title_slide prs t s)) =
     map (\<lambda>s. map p_text (slide_title s)) (slides prs) @ [split_on 10 t]"
  "map (\<lambda>s. map p_text (slide_title s)) (slides (create_content_slide prs t items i)) =
     map (\<lambda>s. map p_text (slide_title s)) (slides prs) @ [split_on 10 t]"
  "map (\<lambda>s. map p_text (slide_title s)) (slides (create_two_column_slide prs t l r)) =
     map (\<lambda>s. map p_text (slide_title s)) (slides prs) @ [split_on 10 t]"
  "map (\<lambda>s. map p_text (slide_title s)) (slides (create_code_slide prs t c lang)) =
     map (\<lambda>s. map p_text (slide_title s)) (slides prs) @ [split_on 10 t]"
  by (simp_all add: create_title_slide_def create_content_slide_def create_two_column_slide_def
      create_code_slide_def text_style_first text_set_text)

lemmas slide_defs = slide_01_def slide_02_def slide_03_def slide_04_def slide_05_def slide_06_def slide_07_def slide_08_def slide_09_def slide_10_def slide_11_def slide_12_def slide_13_def slide_14_def slide_15_def slide_16_def slide_17_def slide_18_def slide_19_def slide_20_def slide_21_def slide_22_def slide_23_def

lemma main_deck_steps:
  "main_deck =
     slide_23 (slide_22 (slide_21 (slide_20 (slide_19 (slide_18 (slide_17 (slide_16 (slide_15
     (slide_14 (slide_13 (slide_12 (slide_11 (slide_10 (slide_09 (slide_08 (slide_07 (slide_06
     (slide_05 (slide_04 (slide_03 (slide_02 (slide_01 main_canvas))))))))))))))))))))))"
  by (simp add: main_deck_def main_calls_def)

lemma main_canvas_empty: "slides main_canvas = []"
  by (simp add: main_canvas_def Presentation_def)

lemma main_kinds:
  "map kind (slides main_deck) =
     [Title, Content, Content, Content, Content, TwoColumn, Content, Content, Content, Code, Code,
      Code, Content, Content, Content, Content, TwoColumn, Content, Content, Content, Content,
      Content, Title]"
  unfolding main_deck_steps slide_defs constructor_kinds main_canvas_empty by simp

lemma main_titles_split:
  "map (\<lambda>s. map p_text (slide_title s)) (slides main_deck) =
     map (split_on 10) (concat
     [[u ''Microsoft Agent Framework''],
      [u ''What is Microsoft Agent Framework?''],
      [u ''Current Status - Private Preview''],
      [u ''Key Features & Capabilities''],
      [u ''Architecture Components''],
      [u ''Cross-Platform Support''],
      [u ''Types of Agents''],
      [u ''Multi-Agent Orchestration Patterns''],
      [u ''Graph-Based Workflows''],
      [u ''Python Example - Simple Agent''],
      [u ''.NET Example - Simple Agent''],
      [u ''Workflow Example - Sequential Agents''],
      [u ''Plugin & Tool Ecosystem''],
      [u ''Azure Integration''],
      [u ''Getting Started - Installation''],
      [u ''Configuration - Environment Variables''],
      [u ''Sample Projects & Examples''],
      [u ''Development Tools''],
      [u ''Best Practices''],
      [u ''Resources & Documentation''],
      [u ''Current Focus & Evolution''],
      [u ''Get Involved!''],
      [u ''Questions?'']])"
  unfolding main_deck_steps slide_defs constructor_titles main_canvas_empty by simp

lemma main_titles:
  "map (\<lambda>s. map p_text (slide_title s)) (slides main_deck) =
     [[u ''Microsoft Agent Framework''],
      [u ''What is Microsoft Agent Framework?''],
      [u ''Current Status - Private Preview''],
      [u ''Key Features & Capabilities''],
      [u ''Architecture Components''],
      [u ''Cross-Platform Support''],
      [u ''Types of Agents''],
      [u ''Multi-Agent Orchestration Patterns''],
      [u ''Graph-Based Workflows''],
      [u ''Python Example - Simple Agent''],
      [u ''.NET Example - Simple Agent''],
      [u ''Workflow Example - Sequential Agents''],
      [u ''Plugin & Tool Ecosystem''],
      [u ''Azure Integration''],
      [u ''Getting Started - Installation''],
      [u ''Configuration - Environment Variables''],
      [u ''Sample Projects & Examples''],
      [u ''Development Tools''],
      [u ''Best Practices''],
      [u ''Resources & Documentation''],
      [u ''Current Focus & Evolution''],
      [u ''Get Involved!''],
      [u ''Questions?'']]"
  unfolding main_titles_split by (simp add: split_on_plain u_def)

lemma main_canvas_kept:
  "slide_width main_deck = slide_width main_canvas" "slide_height main_deck = slide_height main_canvas"
  unfolding main_deck_steps slide_defs constructor_canvas by simp_all

text \<open>
  C8. \<open>main\<close> sets the canvas to 10 by 7.5 inches while the deck has no slide, and the deck
  it saves has exactly 23 slides, of the kinds and with the titles below, in that order, on
  that canvas. \<open>main\<close> reads nothing, so this is so in every run.
\<close>

theorem deck_invariants:
  "slides main_canvas = [] \<and>
   slide_width main_canvas = Inches 10 \<and> slide_height main_canvas = Inches (15 / 2) \<and>
   Inches 10 = 10 * 914400 \<and> 2 * Inches (15 / 2) = 15 * 914400 \<and>
   saved main = main_deck \<and>
   length (slides main_deck) = 23 \<and>
   map kind (slides main_deck) =
     [Title, Content, Content, Content, Content, TwoColumn, Content, Content, Content, Code, Code,
      Code, Content, Content, Content, Content, TwoColumn, Content, Content, Content, Content,
      Content, Title] \<and>
   map (\<lambda>s. map p_text (slide_title s)) (slides main_deck) =
     [[u ''Microsoft Agent Framework''],
      [u ''What is Microsoft Agent Framework?''],
      [u ''Current Status - Private Preview''],
      [u ''Key Features & Capabilities''],
      [u ''Architecture Components''],
      [u ''Cross-Platform Support''],
      [u ''Types of Agents''],
      [u ''Multi-Agent Orchestration Patterns''],
      [u ''Graph-Based Workflows''],
      [u ''Python Example - Simple Agent''],
      [u ''.NET Example - Simple Agent''],
      [u ''Workflow Example - Sequential Agents''],
      [u ''Plugin & Tool Ecosystem''],
      [u ''Azure Integration''],
      [u ''Getting Started - Installation''],
      [u ''Configuration - Environment Variables''],
      [u ''Sample Projects & Examples''],
      [u ''Development Tools''],
      [u ''Best Practices''],
      [u ''Resources & Documentation''],
      [u ''Current Focus & Evolution''],
      [u ''Get Involved!''],
      [u ''Questions?'']] \<and>
   slide_width main_deck = Inches 10 \<and> slide_height main_deck = Inches (15 / 2)"
proof -
  have "length (map kind (slides main_deck)) = 23"
    unfolding main_kinds by simp
  then have len: "length (slides main_deck) = 23" by simp
  have canvas: "slide_width main_canvas = Inches 10" "slide_height main_canvas = Inches (15 / 2)"
    by (simp_all add: main_canvas_def)
  show ?thesis
    using len canvas main_kinds main_titles
    by (simp only: main_canvas_kept main_canvas_empty Inches_values simp_thms)
       (simp add: main_def)
qed

text \<open>
  C9 against the code. The title of a title slide is set to 44pt, bold, RGB(0,51,102); the
  titles of content and code slides to 32pt, bold, RGB(0,51,102); the title of a two-column
  slide to 32pt and bold, but its colour is left unset: so it is for slide 6 of \<open>main\<close>.
\<close>

theorem two_column_title_color:
  "title_font (last (slides (create_title_slide prs t sub))) =
     \<lparr>font_size = Some (Pt 44), font_bold = Some True, font_color = Some (RGBColor 0 51 102),
      font_name = None\<rparr> \<and>
   title_font (last (slides (create_content_slide prs t items i))) =
     \<lparr>font_size = Some (Pt 32), font_bold = Some True, font_color = Some (RGBColor 0 51 102),
      font_name = None\<rparr> \<and>
   title_font (last (slides (create_code_slide prs t code lang))) =
     \<lparr>font_size = Some (Pt 32), font_bold = Some True, font_color = Some (RGBColor 0 51 102),
      font_name = None\<rparr> \<and>
   title_font (last (slides (create_two_column_slide prs t left right))) =
     \<lparr>font_size = Some (Pt 32), font_bold = Some True, font_color = None, font_name = None\<rparr> \<and>
   font_color (title_font (last (slides (slide_06 prs)))) = None"
  by (simp add: title_font_def create_title_slide_def create_content_slide_def
      create_code_slide_def create_two_column_slide_def slide_06_def hd_style_first_set_text
      plain_font_def)

end
